theory Spec2Isabelle
  imports Complex_Main
begin

section \<open>Python exceptions\<close>

text \<open>
  Exceptions are values. Each constructor is a Python exception class, its argument the
  message (\<open>str(err)\<close>).
\<close>

datatype error =
    RuntimeError string
  | AttributeError string
  | TypeError string
  | OSError string
  | ValueError string

fun str_of_error :: "error \<Rightarrow> string" where
  "str_of_error (RuntimeError m) = m"
| "str_of_error (AttributeError m) = m"
| "str_of_error (TypeError m) = m"
| "str_of_error (OSError m) = m"
| "str_of_error (ValueError m) = m"

section \<open>The emulator library\<close>

text \<open>
  DeSmuME is an external library. Its instance is a value of an arbitrary type \<open>'e\<close>, and
  the methods the debugger calls are the fields of a record of functions over \<open>'e\<close>.
  \<open>get_ticks\<close> reads a clock, so it also returns the emulator after the reading.
  \<open>truthy\<close> is the instance's truth value (\<open>if not self.emu\<close>). The savestate methods
  work on the file system, a map from paths to file contents. A method that can raise
  returns the exception, if any, beside what it leaves behind.
\<close>

type_synonym filesystem = "string \<rightharpoonup> string"

record ('e, 'b) desmume =
  truthy :: "'e \<Rightarrow> bool"
  is_running :: "'e \<Rightarrow> bool"
  get_ticks :: "'e \<Rightarrow> int \<times> 'e"
  cycle :: "'e \<Rightarrow> 'e"
  display_buffer_as_rgbx :: "'e \<Rightarrow> 'b"
  open_emu :: "string option \<Rightarrow> 'e \<Rightarrow> error option \<times> 'e"
  reset :: "'e \<Rightarrow> 'e"
  pause :: "'e \<Rightarrow> 'e"
  resume :: "'e \<Rightarrow> 'e"
  destroy :: "'e \<Rightarrow> 'e"
  save_file :: "string \<Rightarrow> 'e \<Rightarrow> filesystem \<Rightarrow> error option \<times> filesystem"
  load_file :: "string \<Rightarrow> filesystem \<Rightarrow> 'e \<Rightarrow> error option \<times> 'e"

section \<open>emulator\_thread.py\<close>

definition TICKS_PER_FRAME :: int where
  "TICKS_PER_FRAME = 17"

definition FRAMES_PER_SECOND :: int where
  "FRAMES_PER_SECOND = 60"

type_synonym thread = nat

text \<open>
  The asyncio loop of the emulator thread, as far as the class uses it: the callbacks
  handed to \<open>call_soon_threadsafe\<close> and the delayed callbacks handed to \<open>call_later\<close>.
\<close>

datatype callback = EmuCycle | LoopStop

record event_loop =
  ready :: "callback list"
  timers :: "(rat \<times> callback) list"


definition call_later :: "rat \<Rightarrow> callback \<Rightarrow> event_loop \<Rightarrow> event_loop" where
  "call_later delay cb l = l\<lparr>timers := timers l @ [(delay, cb)]\<rparr>"

text \<open>
  The fields of \<open>EmulatorThread\<close>. A leading underscore of the source is written
  \<open>priv_\<close>. \<open>loop\<close> and \<open>_thread_instance\<close> are \<open>None\<close> until \<open>run\<close> sets them.
\<close>

record ('e, 'b) EmulatorThread =
  loop :: "event_loop option"
  priv_emu :: 'e
  priv_thread_instance :: "thread option"
  registered_main_loop :: bool
  priv_display_buffer :: "'b option"
  priv_fps_frame_count :: int
  priv_fps_sec_start :: int
  priv_fps :: int
  priv_ticks_prev_frame :: int
  priv_ticks_cur_frame :: int

text \<open>
  The property \<open>emu\<close>. \<open>THREAD_DEBUG\<close> is a constant of the module \<open>threadsafe\<close>;
  it is a parameter here. \<open>cur\<close> is \<open>current_thread()\<close>.
\<close>

definition emu :: "bool \<Rightarrow> thread \<Rightarrow> ('e, 'b) EmulatorThread \<Rightarrow> error + 'e" where
  "emu THREAD_DEBUG cur t =
     (if THREAD_DEBUG \<and> Some cur \<noteq> priv_thread_instance t
      then Inl (RuntimeError ''The emulator may only be accessed from withing the emulator thread'')
      else Inr (priv_emu t))"

text \<open>
  \<open>__init__\<close> for the emulator \<open>e\<close>, and \<open>run\<close> up to the call of
  \<open>run_forever\<close>, on the thread \<open>cur\<close>.
\<close>

definition EmulatorThread_init :: "'e \<Rightarrow> ('e, 'b) EmulatorThread" where
  "EmulatorThread_init e =
     \<lparr>loop = None, priv_emu = e, priv_thread_instance = None,
      registered_main_loop = False, priv_display_buffer = None,
      priv_fps_frame_count = 0, priv_fps_sec_start = 0, priv_fps = 0,
      priv_ticks_prev_frame = 0, priv_ticks_cur_frame = 0\<rparr>"

definition run_start ::
  "thread \<Rightarrow> ('e, 'b) desmume \<Rightarrow> ('e, 'b) EmulatorThread \<Rightarrow> ('e, 'b) EmulatorThread" where
  "run_start cur D t =
     (let t1 = t\<lparr>priv_thread_instance := Some cur\<rparr>
      in t1\<lparr>priv_display_buffer := Some (display_buffer_as_rgbx D (priv_emu t1)),
             loop := Some \<lparr>ready = [], timers = []\<rparr>\<rparr>)"


text \<open>
  The busy wait of \<open>_emu_cycle\<close>: read the clock until a frame's worth of ticks has
  passed since the previous frame. It does not return when the clock stands still.
\<close>

partial_function (option) wait_ticks ::
  "('e, 'b) desmume \<Rightarrow> int \<Rightarrow> int \<Rightarrow> 'e \<Rightarrow> (int \<times> 'e) option" where
  "wait_ticks D prev cur e =
     (if cur - prev < TICKS_PER_FRAME
      then (case get_ticks D e of (c, e') \<Rightarrow> wait_ticks D prev c e')
      else Some (cur, e))"

text \<open>
  The wait before the next cycle, in seconds. Python computes it in floating point; here
  it is the exact rational.
\<close>

definition ticks_to_wait :: "int \<Rightarrow> int \<Rightarrow> rat" where
  "ticks_to_wait cur prev =
     (let w = 1 / of_int FRAMES_PER_SECOND
              - of_int (cur - prev - TICKS_PER_FRAME + 2) / 1000
      in if w < 0 then 0 else w)"

text \<open>The frame counter of \<open>_emu_cycle\<close> (the block under \<open>fps_frame_count_lock\<close>).\<close>

definition fps_count ::
  "('e, 'b) desmume \<Rightarrow> ('e, 'b) EmulatorThread \<Rightarrow> ('e, 'b) EmulatorThread" where
  "fps_count D t0 =
     (let t1 = t0\<lparr>priv_fps_frame_count := priv_fps_frame_count t0 + 1\<rparr>;
          t2 = (if priv_fps_sec_start t1 = 0
                then (case get_ticks D (priv_emu t1) of
                        (k, e) \<Rightarrow> t1\<lparr>priv_emu := e, priv_fps_sec_start := k\<rparr>)
                else t1)
      in case get_ticks D (priv_emu t2) of
           (k2, e2) \<Rightarrow>
             (let t3 = t2\<lparr>priv_emu := e2\<rparr>
              in if k2 - priv_fps_sec_start t3 \<ge> 1000
                 then (case get_ticks D (priv_emu t3) of
                         (k3, e3) \<Rightarrow>
                           t3\<lparr>priv_emu := e3, priv_fps_sec_start := k3,
                               priv_fps := priv_fps_frame_count t3,
                               priv_fps_frame_count := 0\<rparr>)
                 else t3))"

text \<open>
  \<open>_emu_cycle\<close>. The result is \<open>None\<close> when the busy wait does not return; otherwise
  the returned value or the exception raised, and the object after the call.
\<close>

definition emu_cycle ::
  "bool \<Rightarrow> thread \<Rightarrow> ('e, 'b) desmume \<Rightarrow> ('e, 'b) EmulatorThread
     \<Rightarrow> ((error + bool) \<times> ('e, 'b) EmulatorThread) option" where
  "emu_cycle THREAD_DEBUG cur D t =
     (case emu THREAD_DEBUG cur t of
        Inl err \<Rightarrow> Some (Inl err, t)
      | Inr e \<Rightarrow>
          if \<not> truthy D e then Some (Inr False, t\<lparr>registered_main_loop := False\<rparr>)
          else if is_running D e then
            (let t1 = fps_count D t;
                 t2 = t1\<lparr>priv_emu := cycle D (priv_emu t1)\<rparr>
             in case get_ticks D (priv_emu t2) of
                  (k, e2) \<Rightarrow>
                    (let t3 = t2\<lparr>priv_emu := e2, priv_ticks_cur_frame := k\<rparr>
                     in case wait_ticks D (priv_ticks_prev_frame t3) k (priv_emu t3) of
                          None \<Rightarrow> None
                        | Some (c, e4) \<Rightarrow>
                            (let t4 = t3\<lparr>priv_emu := e4, priv_ticks_cur_frame := c\<rparr>;
                                 w = ticks_to_wait (priv_ticks_cur_frame t4)
                                       (priv_ticks_prev_frame t4)
                             in case get_ticks D (priv_emu t4) of
                                  (p, e5) \<Rightarrow>
                                    (let t5 = t4\<lparr>priv_emu := e5, priv_ticks_prev_frame := p\<rparr>
                                     in case loop t5 of
                                          None \<Rightarrow> Some (Inl (AttributeError ''call_later''), t5)
                                        | Some l \<Rightarrow>
                                            Some (Inr True,
                                              t5\<lparr>loop := Some (call_later w EmuCycle l),
                                                  priv_display_buffer :=
                                                    Some (display_buffer_as_rgbx D (priv_emu t5))\<rparr>)))))
          else Some (Inr False,
                 t\<lparr>priv_display_buffer := Some (display_buffer_as_rgbx D e),
                    registered_main_loop := False\<rparr>))"

text \<open>
  The object when \<open>_emu_cycle\<close> reaches the busy wait: the frame is counted, the
  emulator has run its cycle and the clock has been read into \<open>_ticks_cur_frame\<close>.
\<close>

definition before_wait ::
  "('e, 'b) desmume \<Rightarrow> ('e, 'b) EmulatorThread \<Rightarrow> ('e, 'b) EmulatorThread" where
  "before_wait D t =
     (let t1 = fps_count D t;
          t2 = t1\<lparr>priv_emu := cycle D (priv_emu t1)\<rparr>
      in case get_ticks D (priv_emu t2) of
           (k, e2) \<Rightarrow> t2\<lparr>priv_emu := e2, priv_ticks_cur_frame := k\<rparr>)"

section \<open>controller/debug\_overlay.py\<close>

definition ALPHA_T :: rat where
  "ALPHA_T = 7 / 10"

type_synonym rgba = "rat \<times> rat \<times> rat \<times> rat"

definition COLOR_ACTOR :: rgba where
  "COLOR_ACTOR = (255, 0, 255, ALPHA_T)"

definition COLOR_OBJECTS :: rgba where
  "COLOR_OBJECTS = (255, 160, 0, ALPHA_T)"

definition COLOR_PERFORMER :: rgba where
  "COLOR_PERFORMER = (0, 255, 255, ALPHA_T)"

definition COLOR_EVENTS :: rgba where
  "COLOR_EVENTS = (0, 0, 255, 100)"

definition REDRAW_DELAY :: int where
  "REDRAW_DELAY = 2"

text \<open>
  What the overlay reads of the ground engine state: the flag \<open>running\<close>, the map and
  the four entity lists, whose free slots are \<open>None\<close>. The entities are of an arbitrary
  type \<open>'n\<close>; their method \<open>get_bounding_box_camera\<close> is the parameter \<open>bb\<close> of
  \<open>update_cache\<close>. A bounding box is a tuple \<open>(x1, y1, x2, y2)\<close>.
\<close>

type_synonym bbox = "int \<times> int \<times> int \<times> int"

record ('n, 'm) GroundEngineState =
  running :: bool
  ges_map :: 'm
  actors :: "'n option list"
  objects :: "'n option list"
  performers :: "'n option list"
  events :: "'n option list"

record DebugOverlayController =
  debugger :: bool
  enabled :: bool
  visible :: bool
  priv_refresh_cache :: bool
  priv_cache_running :: bool
  priv_cache_redrawing_registered :: bool
  priv_actor_bbox_cache :: "bbox list"
  priv_object_bbox_cache :: "bbox list"
  priv_perf_bbox_cache :: "bbox list"
  priv_event_bbox_cache :: "bbox list"

text \<open>\<open>__init__\<close>, with \<open>dbg\<close> telling whether a debugger was passed.\<close>

definition DebugOverlayController_init :: "bool \<Rightarrow> DebugOverlayController" where
  "DebugOverlayController_init dbg =
     \<lparr>debugger = dbg, enabled = False, visible = False,
      priv_refresh_cache = True, priv_cache_running = False,
      priv_cache_redrawing_registered = False,
      priv_actor_bbox_cache = [], priv_object_bbox_cache = [],
      priv_perf_bbox_cache = [], priv_event_bbox_cache = []\<rparr>"

definition toggle :: "bool \<Rightarrow> DebugOverlayController \<Rightarrow> DebugOverlayController" where
  "toggle state c = c\<lparr>enabled := state\<rparr>"

fun not_none :: "'a option list \<Rightarrow> 'a list" where
  "not_none [] = []"
| "not_none (None # it) = not_none it"
| "not_none (Some i # it) = i # not_none it"

text \<open>The calls \<open>draw\<close> makes on the cairo context.\<close>

datatype cairo_call =
    set_source_rgba rgba
  | rectangle int int int int
  | fill

definition draw_bbox :: "rgba \<Rightarrow> bbox \<Rightarrow> cairo_call list" where
  "draw_bbox color bbox =
     (case bbox of (b0, b1, b2, b3) \<Rightarrow>
        [set_source_rgba color, rectangle b0 b1 (b2 - b0) (b3 - b1), fill])"

text \<open>
  \<open>draw\<close> returns the calls made on the cairo context, whether it has scheduled
  \<open>_update_cache\<close> on the emulator thread, and the controller after the call.
\<close>

definition draw ::
  "int \<Rightarrow> DebugOverlayController \<Rightarrow> cairo_call list \<times> bool \<times> DebugOverlayController" where
  "draw display_id c =
     (if display_id = 1 \<and> enabled c \<and> debugger c then
        (let sched = (priv_refresh_cache c \<and> \<not> priv_cache_redrawing_registered c);
             c1 = (if sched then c\<lparr>priv_cache_redrawing_registered := True\<rparr> else c)
         in (if priv_cache_running c1 then
               concat (map (draw_bbox COLOR_ACTOR) (priv_actor_bbox_cache c1))
               @ concat (map (draw_bbox COLOR_OBJECTS) (priv_object_bbox_cache c1))
               @ concat (map (draw_bbox COLOR_PERFORMER) (priv_perf_bbox_cache c1))
               @ concat (map (draw_bbox COLOR_EVENTS) (priv_event_bbox_cache c1))
             else [],
             sched, c1))
      else ([], False, c))"

definition break_pulled_overlay :: "DebugOverlayController \<Rightarrow> DebugOverlayController" where
  "break_pulled_overlay c = c\<lparr>priv_refresh_cache := False\<rparr>"

definition break_released_overlay :: "DebugOverlayController \<Rightarrow> DebugOverlayController" where
  "break_released_overlay c = c\<lparr>priv_refresh_cache := True\<rparr>"

text \<open>
  \<open>_update_cache\<close>, one run of the coroutine. \<open>ges\<close> is
  \<open>self.debugger.ground_engine_state\<close> at that moment. The boolean returned tells
  whether the coroutine sleeps and then schedules itself again.
\<close>

definition update_cache ::
  "('n \<Rightarrow> 'm \<Rightarrow> bbox) \<Rightarrow> ('n, 'm) GroundEngineState \<Rightarrow> DebugOverlayController
     \<Rightarrow> bool \<times> DebugOverlayController" where
  "update_cache bb ges c =
     (let c1 = c\<lparr>priv_cache_running := running ges\<rparr>;
          c2 = (if priv_cache_running c1 then
                  c1\<lparr>priv_actor_bbox_cache := map (\<lambda>a. bb a (ges_map ges)) (not_none (actors ges)),
                      priv_object_bbox_cache := map (\<lambda>a. bb a (ges_map ges)) (not_none (objects ges)),
                      priv_perf_bbox_cache := map (\<lambda>a. bb a (ges_map ges)) (not_none (performers ges)),
                      priv_event_bbox_cache := map (\<lambda>a. bb a (ges_map ges)) (not_none (events ges))\<rparr>
                else c1)
      in if priv_refresh_cache c2 then (True, c2)
         else (False, c2\<lparr>priv_cache_redrawing_registered := False\<rparr>))"

text \<open>The four bounding-box collections of the cache.\<close>

definition bbox_caches ::
  "DebugOverlayController \<Rightarrow> bbox list \<times> bbox list \<times> bbox list \<times> bbox list" where
  "bbox_caches c =
     (priv_actor_bbox_cache c, priv_object_bbox_cache c,
      priv_perf_bbox_cache c, priv_event_bbox_cache c)"

text \<open>
  What happens to the overlay between two calls of \<open>break_pulled\<close> and
  \<open>break_released\<close>: the renderer draws, and the emulator thread runs a scheduled
  \<open>_update_cache\<close>. \<open>pending\<close> counts the scheduled runs.
\<close>

datatype ('n, 'm) overlay_action =
    Draw int
  | Refresh "('n, 'm) GroundEngineState"

fun overlay_step ::
  "('n \<Rightarrow> 'm \<Rightarrow> bbox) \<Rightarrow> ('n, 'm) overlay_action \<Rightarrow> nat \<times> DebugOverlayController
     \<Rightarrow> nat \<times> DebugOverlayController" where
  "overlay_step bb (Draw display_id) (pending, c) =
     (case draw display_id c of
        (calls, sched, c') \<Rightarrow> (if sched then Suc pending else pending, c'))"
| "overlay_step bb (Refresh ges) (pending, c) =
     (if pending = 0 then (pending, c)
      else (case update_cache bb ges c of
              (again, c') \<Rightarrow> (if again then pending else pending - 1, c')))"

fun overlay_steps ::
  "('n \<Rightarrow> 'm \<Rightarrow> bbox) \<Rightarrow> ('n, 'm) overlay_action list \<Rightarrow> nat \<times> DebugOverlayController
     \<Rightarrow> nat \<times> DebugOverlayController" where
  "overlay_steps bb [] pc = pc"
| "overlay_steps bb (x # xs) pc = overlay_steps bb xs (overlay_step bb x pc)"

section \<open>Paths and formatting\<close>

text \<open>\<open>os.path.basename\<close> and \<open>os.path.join\<close> (of two components) on POSIX.\<close>

definition basename :: "string \<Rightarrow> string" where
  "basename p = rev (takeWhile (\<lambda>c. c \<noteq> CHR ''/'') (rev p))"

definition path_join :: "string \<Rightarrow> string \<Rightarrow> string" where
  "path_join a b =
     (if b \<noteq> [] \<and> hd b = CHR ''/'' then b
      else if a = [] \<or> last a = CHR ''/'' then a @ b
      else a @ ''/'' @ b)"

text \<open>The decimal text of an integer, as an f-string writes it.\<close>

fun str_nat :: "nat \<Rightarrow> string" where
  "str_nat n =
     (if n < 10 then [''0123456789'' ! n]
      else str_nat (n div 10) @ [''0123456789'' ! (n mod 10)])"

definition str_int :: "int \<Rightarrow> string" where
  "str_int i = (if i < 0 then ''-'' @ str_nat (nat (- i)) else str_nat (nat i))"

section \<open>model/breakpoint\_state.py\<close>

text \<open>
  The release hooks are bound methods. The hook of the main controller is named; any
  other hook (of the code editor, of the ground state) is known by a label only.
\<close>

datatype release_hook = MainController_break_released | OtherHook string

text \<open>
  Modelled from the spec: the class \<open>BreakpointState\<close> (its module is not part of the
  sources at hand). It has the hanger of the halted script, a stopped flag, a
  hard-failed flag and the ordered list of release hooks.
\<close>

record BreakpointState =
  hanger_id :: int
  stopped :: bool
  hard_failed :: bool
  release_hooks :: "release_hook list"

definition is_stopped :: "BreakpointState \<Rightarrow> bool" where
  "is_stopped bs = stopped bs"

definition add_release_hook :: "release_hook \<Rightarrow> BreakpointState \<Rightarrow> BreakpointState" where
  "add_release_hook h bs = bs\<lparr>release_hooks := release_hooks bs @ [h]\<rparr>"

section \<open>controller/main.py\<close>

definition SAVESTATE_EXT_DESUME :: string where
  "SAVESTATE_EXT_DESUME = ''ds''"

definition SAVESTATE_EXT_GROUND_ENGINE :: string where
  "SAVESTATE_EXT_GROUND_ENGINE = ''ge.json''"

text \<open>
  The ground engine state of the debugger is a value of an arbitrary type \<open>'g\<close>, a
  serialized document a value of \<open>'d\<close>. The methods of the ground engine state that the
  main controller calls, and \<open>json.dump\<close> and \<open>json.load\<close>, are the fields of a record.
  \<open>serialize\<close> returns a document and leaves the state as it is. \<open>json.dump\<close>
  writes the text in pieces: \<open>json_dump\<close> gives the exception, if any, and the text
  that has reached the file.
\<close>

record ('g, 'd) ground_engine =
  serialize :: "'g \<Rightarrow> error + 'd"
  deserialize :: "'d \<Rightarrow> 'g \<Rightarrow> error + 'g"
  reset_ges :: "'g \<Rightarrow> 'g"
  json_dump :: "'d \<Rightarrow> error option \<times> string"
  json_load :: "string \<Rightarrow> error + 'd"

text \<open>
  What the main controller does to its surroundings, in the order it does it: calls on
  the emulator (made through \<open>threadsafe_emu\<close>), on the breakpoint state, on the ground
  engine state, on files, on the other controllers and on the GTK widgets.
\<close>

datatype buttons = Running | Paused | Stopped

datatype event =
    EmuIsRunning
  | EmuOpen "string option"
  | EmuReset
  | EmuPause
  | EmuDestroy
  | EmuSaveFile string
  | EmuLoadFile string
  | EmuVolumeSet int
  | ThreadStop
  | GtkMainQuit
  | FailHard
  | ReleaseHook release_hook
  | GesReset
  | GesSerialize
  | GesDeserialize
  | FileOpenWrite string
  | FileOpenRead string
  | SetButtons buttons
  | MessageDialog string string
  | WriteInfoBar string
  | ClearInfoBar
  | TogglePausedDebuggingFeatures bool
  | VariableSync
  | GroundStateSync
  | GroundStateSyncBreakHanger
  | OverlayBreakReleased
  | Print string

text \<open>
  The fields of \<open>MainController\<close> that the functions below use, with
  \<open>ground_engine_state\<close> for \<open>self.debugger.ground_engine_state\<close> and
  \<open>emulator_controls_volume\<close> for the state of that toggle button. \<open>files\<close> is the
  file system and \<open>open_for_writing\<close> gives the exception that \<open>open(path, 'w')\<close>
  raises for a path, if any.
  \<open>trace\<close> collects the events.
\<close>

record ('e, 'b, 'g) MainController =
  emu_thread :: "('e, 'b) EmulatorThread option"
  rom_filename :: "string option"
  priv_emu_is_running :: bool
  priv_stopped :: bool
  breakpoint_state :: "BreakpointState option"
  ground_engine_state :: "'g option"
  config_dir :: string
  emulator_controls_volume :: bool
  files :: filesystem
  open_for_writing :: "string \<Rightarrow> error option"
  trace :: "event list"

definition log ::
  "event \<Rightarrow> ('e, 'b, 'g) MainController \<Rightarrow> ('e, 'b, 'g) MainController" where
  "log ev s = s\<lparr>trace := trace s @ [ev]\<rparr>"

definition set_emu ::
  "'e \<Rightarrow> ('e, 'b, 'g) MainController \<Rightarrow> ('e, 'b, 'g) MainController" where
  "set_emu e s = s\<lparr>emu_thread := map_option (\<lambda>t. t\<lparr>priv_emu := e\<rparr>) (emu_thread s)\<rparr>"

text \<open>
  \<open>EmulatorThread.coro_runner\<close>, the wrapper in which \<open>EmulatorThread.run_task\<close>
  runs every task on the emulator thread: it gives the result of the task, and when the
  task raises it prints the exception and gives \<open>None\<close>.
\<close>

definition coro_runner ::
  "(('e, 'b, 'g) MainController \<Rightarrow> (error + 'x) \<times> ('e, 'b, 'g) MainController)
     \<Rightarrow> ('e, 'b, 'g) MainController \<Rightarrow> 'x option \<times> ('e, 'b, 'g) MainController" where
  "coro_runner coro s =
     (case coro s of
        (Inl ex, s') \<Rightarrow>
          (None,
           log (Print (str_of_error ex))
             (log (Print ''Uncaught EmulatorThread task exception:'') s'))
      | (Inr x, s') \<Rightarrow> (Some x, s'))"

text \<open>
  Modelled from the spec: \<open>threadsafe_emu\<close> of the module \<open>threadsafe\<close>, the blocking
  call of the gateway. It hands the function to \<open>run_task\<close> of the emulator thread,
  where the property \<open>emu\<close> gives the emulator, and waits for the result. The task runs
  in \<open>coro_runner\<close>, so an exception of the function does not reach the caller: the
  caller gets \<open>None\<close>. The spec lets the call fail with \<open>gateway closed\<close> when the
  emulator thread is not running; here that is the main controller without an emulator
  thread. A thread that the main controller holds is taken to be running: the main
  controller starts the thread when it creates it, \<open>run_task\<close> waits at
  \<open>start_lock\<close> until \<open>run\<close> has made the loop, and the thread is stopped only by
  the two functions that quit the program. \<open>ev\<close> names the call for the trace.
\<close>

definition threadsafe_emu ::
  "event \<Rightarrow> ('e \<Rightarrow> ('e, 'b, 'g) MainController \<Rightarrow> (error + 'x) \<times> ('e, 'b, 'g) MainController)
     \<Rightarrow> ('e, 'b, 'g) MainController
     \<Rightarrow> (error + 'x option) \<times> ('e, 'b, 'g) MainController" where
  "threadsafe_emu ev f s =
     (case emu_thread s of
        None \<Rightarrow> (Inl (RuntimeError ''gateway closed''), s)
      | Some t \<Rightarrow>
          (case coro_runner (f (priv_emu t)) (log ev s) of
             (r, s') \<Rightarrow> (Inr r, s')))"

text \<open>The truth value of a result that may be \<open>None\<close>.\<close>

definition py_bool :: "bool option \<Rightarrow> bool" where
  "py_bool v = (case v of None \<Rightarrow> False | Some b \<Rightarrow> b)"

text \<open>The property \<open>emu_is_running\<close> and its setter.\<close>

definition emu_is_running :: "('e, 'b, 'g) MainController \<Rightarrow> bool" where
  "emu_is_running s =
     (if (case breakpoint_state s of None \<Rightarrow> False | Some bs \<Rightarrow> is_stopped bs)
      then False
      else priv_emu_is_running s)"

definition emu_is_running_set ::
  "bool \<Rightarrow> ('e, 'b, 'g) MainController \<Rightarrow> ('e, 'b, 'g) MainController" where
  "emu_is_running_set v s = s\<lparr>priv_emu_is_running := v\<rparr>"

definition toggle_paused_debugging_features ::
  "bool \<Rightarrow> ('e, 'b, 'g) MainController \<Rightarrow> ('e, 'b, 'g) MainController" where
  "toggle_paused_debugging_features on_off s = log (TogglePausedDebuggingFeatures on_off) s"

definition load_debugger_state ::
  "('e, 'b, 'g) MainController \<Rightarrow> ('e, 'b, 'g) MainController" where
  "load_debugger_state s =
     log GroundStateSync (log VariableSync (toggle_paused_debugging_features True s))"

definition break_released ::
  "('e, 'b, 'g) MainController \<Rightarrow> ('e, 'b, 'g) MainController" where
  "break_released s =
     (let s1 = (if emulator_controls_volume s then log (EmuVolumeSet 100) s else s);
          s2 = s1\<lparr>breakpoint_state := None\<rparr>;
          s3 = log (SetButtons Running) s2;
          s4 = toggle_paused_debugging_features False s3;
          s5 = log ClearInfoBar s4;
          s6 = log GroundStateSyncBreakHanger s5
      in log OverlayBreakReleased s6)"

fun call_release_hook ::
  "release_hook \<Rightarrow> ('e, 'b, 'g) MainController \<Rightarrow> ('e, 'b, 'g) MainController" where
  "call_release_hook MainController_break_released s =
     break_released (log (ReleaseHook MainController_break_released) s)"
| "call_release_hook (OtherHook name) s = log (ReleaseHook (OtherHook name)) s"

text \<open>
  Modelled from the spec: \<open>BreakpointState.fail_hard\<close>, called on
  \<open>self.breakpoint_state\<close>. It marks the breakpoint state hard-failed, so that it is
  no longer stopped, and fires the release hooks at once, in the order of registration.
\<close>

definition fail_hard ::
  "('e, 'b, 'g) MainController \<Rightarrow> ('e, 'b, 'g) MainController" where
  "fail_hard s =
     (case breakpoint_state s of
        None \<Rightarrow> s
      | Some bs \<Rightarrow>
          fold call_release_hook (release_hooks bs)
            (log FailHard
               (s\<lparr>breakpoint_state := Some (bs\<lparr>stopped := False, hard_failed := True\<rparr>)\<rparr>)))"

text \<open>
  The events of \<open>break_released\<close>, of one release hook and of \<open>fail_hard\<close>, for the
  state \<open>volume\<close> of the volume button.
\<close>

definition break_released_events :: "bool \<Rightarrow> event list" where
  "break_released_events volume =
     (if volume then [EmuVolumeSet 100] else [])
     @ [SetButtons Running, TogglePausedDebuggingFeatures False, ClearInfoBar,
        GroundStateSyncBreakHanger, OverlayBreakReleased]"

fun release_hook_events :: "bool \<Rightarrow> release_hook \<Rightarrow> event list" where
  "release_hook_events volume MainController_break_released =
     ReleaseHook MainController_break_released # break_released_events volume"
| "release_hook_events volume (OtherHook name) = [ReleaseHook (OtherHook name)]"

definition fail_hard_events :: "bool \<Rightarrow> BreakpointState \<Rightarrow> event list" where
  "fail_hard_events volume bs =
     FailHard # concat (map (release_hook_events volume) (release_hooks bs))"




text \<open>The two savestate paths of slot \<open>i\<close> for the ROM file \<open>fn\<close>.\<close>

definition desmume_savestate_path :: "string \<Rightarrow> string \<Rightarrow> int \<Rightarrow> string" where
  "desmume_savestate_path cfg fn i =
     path_join cfg (basename fn @ ''.save.'' @ str_int i @ ''.'' @ SAVESTATE_EXT_DESUME)"

definition ground_engine_savestate_path :: "string \<Rightarrow> string \<Rightarrow> int \<Rightarrow> string" where
  "ground_engine_savestate_path cfg fn i =
     path_join cfg (basename fn @ ''.save.'' @ str_int i @ ''.'' @ SAVESTATE_EXT_GROUND_ENGINE)"

definition str_opt :: "string option \<Rightarrow> string" where
  "str_opt x = (case x of None \<Rightarrow> ''None'' | Some v \<Rightarrow> v)"

text \<open>
  \<open>emu_reset\<close>. A \<open>RuntimeError\<close> that the two gateway calls raise is caught and
  shown; any other exception leaves the function.
\<close>

definition emu_reset ::
  "('e, 'b) desmume \<Rightarrow> ('g, 'd) ground_engine \<Rightarrow> ('e, 'b, 'g) MainController
     \<Rightarrow> error option \<times> ('e, 'b, 'g) MainController" where
  "emu_reset D G s =
     (if emu_thread s \<noteq> None then
        (let s1 = (if breakpoint_state s \<noteq> None then fail_hard s else s);
             s2 = (case ground_engine_state s1 of
                     None \<Rightarrow> s1
                   | Some g \<Rightarrow> log GesReset (s1\<lparr>ground_engine_state := Some (reset_ges G g)\<rparr>));
             r = (case threadsafe_emu (EmuOpen (rom_filename s2))
                         (\<lambda>e s'. case open_emu D (rom_filename s') e of
                                    (Some err, e') \<Rightarrow> (Inl err, set_emu e' s')
                                  | (None, e') \<Rightarrow> (Inr (), set_emu e' s')) s2 of
                    (Inl err, s3) \<Rightarrow> (Inl err, s3)
                  | (Inr u, s3) \<Rightarrow>
                      (case threadsafe_emu EmuIsRunning
                              (\<lambda>e s'. (Inr (is_running D e), s')) s3 of
                         (Inl err, s4) \<Rightarrow> (Inl err, s4)
                       | (Inr v, s4) \<Rightarrow> (Inr (), emu_is_running_set (py_bool v) s4)))
         in case r of
              (Inl (RuntimeError m), s5) \<Rightarrow>
                (None, log (MessageDialog ''Error!''
                              (''Emulator failed to load: '' @ str_opt (rom_filename s5))) s5)
            | (Inl err, s5) \<Rightarrow> (Some err, s5)
            | (Inr u, s5) \<Rightarrow> (None, s5))
      else (None, s))"


text \<open>
  \<open>savestate\<close>: the body of the \<open>try\<close>, then the handler. Opening the file for
  writing empties it; the ground engine state is serialized after that, and what
  \<open>json.dump\<close> has written before it raises stays in the file.
\<close>

definition savestate_try ::
  "('e, 'b) desmume \<Rightarrow> ('g, 'd) ground_engine \<Rightarrow> int \<Rightarrow> ('e, 'b, 'g) MainController
     \<Rightarrow> (error + unit) \<times> ('e, 'b, 'g) MainController" where
  "savestate_try D G i s =
     (case rom_filename s of
        None \<Rightarrow> (Inl (TypeError ''expected str, bytes or os.PathLike object, not NoneType''), s)
      | Some fn \<Rightarrow>
          (let ds_path = desmume_savestate_path (config_dir s) fn i;
               ge_path = ground_engine_savestate_path (config_dir s) fn i
           in case open_for_writing s ge_path of
                Some err \<Rightarrow> (Inl err, log (FileOpenWrite ge_path) s)
              | None \<Rightarrow>
                (let s1 = log (FileOpenWrite ge_path) (s\<lparr>files := (files s)(ge_path \<mapsto> [])\<rparr>)
                 in case ground_engine_state s1 of
                      None \<Rightarrow> (Inl (AttributeError ''serialize''), s1)
                    | Some g \<Rightarrow>
                        (case serialize G g of
                           Inl err \<Rightarrow> (Inl err, log GesSerialize s1)
                         | Inr doc \<Rightarrow>
                             (case json_dump G doc of
                                (Some err, written) \<Rightarrow>
                                  (Inl err,
                                   (log GesSerialize s1)
                                     \<lparr>files := (files s1)(ge_path \<mapsto> written)\<rparr>)
                              | (None, content) \<Rightarrow>
                                  (let s2 = (log GesSerialize s1)
                                              \<lparr>files := (files s1)(ge_path \<mapsto> content)\<rparr>
                                   in case threadsafe_emu (EmuSaveFile ds_path)
                                        (\<lambda>e s'. case save_file D ds_path e (files s') of
                                                   (Some err, fs) \<Rightarrow> (Inl err, s'\<lparr>files := fs\<rparr>)
                                                 | (None, fs) \<Rightarrow> (Inr (), s'\<lparr>files := fs\<rparr>))
                                        s2 of
                                        (Inl err, s3) \<Rightarrow> (Inl err, s3)
                                      | (Inr u, s3) \<Rightarrow> (Inr (), s3)))))))"

definition savestate ::
  "('e, 'b) desmume \<Rightarrow> ('g, 'd) ground_engine \<Rightarrow> int \<Rightarrow> ('e, 'b, 'g) MainController
     \<Rightarrow> ('e, 'b, 'g) MainController" where
  "savestate D G i s =
     (case savestate_try D G i s of
        (Inl err, s') \<Rightarrow> log (MessageDialog ''Unable to save savestate!'' (str_of_error err)) s'
      | (Inr u, s') \<Rightarrow> s')"

text \<open>
  \<open>loadstate\<close>: the body of the \<open>try\<close>, then the function. The paths are computed
  before the \<open>try\<close>, so the exception of \<open>os.path.basename(None)\<close> leaves the function.
\<close>

definition loadstate_try ::
  "('e, 'b) desmume \<Rightarrow> ('g, 'd) ground_engine \<Rightarrow> string \<Rightarrow> string
     \<Rightarrow> ('e, 'b, 'g) MainController \<Rightarrow> (error + unit) \<times> ('e, 'b, 'g) MainController" where
  "loadstate_try D G ds_path ge_path s =
     (case threadsafe_emu EmuIsRunning (\<lambda>e s'. (Inr (is_running D e), s')) s of
        (Inl err, s1) \<Rightarrow> (Inl err, s1)
      | (Inr was_running, s1) \<Rightarrow>
          (case emu_reset D G (s1\<lparr>priv_stopped := False\<rparr>) of
             (Some err, s2) \<Rightarrow> (Inl err, s2)
           | (None, s2) \<Rightarrow>
               (case threadsafe_emu (EmuLoadFile ds_path)
                       (\<lambda>e s'. case load_file D ds_path (files s') e of
                                  (Some err, e') \<Rightarrow> (Inl err, set_emu e' s')
                                | (None, e') \<Rightarrow> (Inr (), set_emu e' s')) s2 of
                  (Inl err, s3) \<Rightarrow> (Inl err, s3)
                | (Inr u, s3) \<Rightarrow>
                    (case files s3 ge_path of
                       None \<Rightarrow> (Inl (OSError ge_path), log (FileOpenRead ge_path) s3)
                     | Some content \<Rightarrow>
                         (case json_load G content of
                            Inl err \<Rightarrow> (Inl err, log (FileOpenRead ge_path) s3)
                          | Inr doc \<Rightarrow>
                              (case ground_engine_state s3 of
                                 None \<Rightarrow>
                                   (Inl (AttributeError ''deserialize''),
                                    log (FileOpenRead ge_path) s3)
                               | Some g \<Rightarrow>
                                   (case deserialize G doc g of
                                      Inl err \<Rightarrow>
                                        (Inl err,
                                         log GesDeserialize (log (FileOpenRead ge_path) s3))
                                    | Inr g' \<Rightarrow>
                                        (let s4 = log GesDeserialize
                                                    (log (FileOpenRead ge_path)
                                                       (s3\<lparr>ground_engine_state := Some g'\<rparr>))
                                         in case threadsafe_emu EmuIsRunning
                                                   (\<lambda>e s'. (Inr (is_running D e), s')) s4 of
                                              (Inl err, s5) \<Rightarrow> (Inl err, s5)
                                            | (Inr v, s5) \<Rightarrow>
                                                (Inr (),
                                                 log (SetButtons
                                                        (if py_bool was_running then Running
                                                         else Paused))
                                                   (load_debugger_state
                                                      (emu_is_running_set (py_bool v) s5)))))))))))"

definition loadstate ::
  "('e, 'b) desmume \<Rightarrow> ('g, 'd) ground_engine \<Rightarrow> int \<Rightarrow> ('e, 'b, 'g) MainController
     \<Rightarrow> error option \<times> ('e, 'b, 'g) MainController" where
  "loadstate D G i s =
     (case rom_filename s of
        None \<Rightarrow> (Some (TypeError ''expected str, bytes or os.PathLike object, not NoneType''), s)
      | Some fn \<Rightarrow>
          (let ds_path = desmume_savestate_path (config_dir s) fn i;
               ge_path = ground_engine_savestate_path (config_dir s) fn i
           in if files s ge_path \<noteq> None then
                (case loadstate_try D G ds_path ge_path s of
                   (Inl ex, s') \<Rightarrow>
                     (None,
                      log (MessageDialog ''Unable to load savestate!'' (str_of_error ex))
                        (log (Print (str_of_error ex)) (log (Print ''Savestate load error:'') s')))
                 | (Inr u, s') \<Rightarrow> (None, s'))
              else (None, s)))"

section \<open>The cycle chain of the emulator thread\<close>









section \<open>A small emulator and ground engine to run the definitions on\<close>

text \<open>
  An emulator with a clock that advances by five ticks at every reading, a running flag
  and a machine state; a savestate file holds the machine state, and an empty machine
  state cannot be saved. Opening a ROM needs a file name and leaves the emulator paused
  with an empty machine state.
\<close>

record toy_emulator =
  clock :: int
  powered :: bool
  machine :: string

definition toy_desmume :: "(toy_emulator, string) desmume" where
  "toy_desmume =
     \<lparr>truthy = (\<lambda>e. True),
      is_running = powered,
      get_ticks = (\<lambda>e. (clock e, e\<lparr>clock := clock e + 5\<rparr>)),
      cycle = (\<lambda>e. e\<lparr>machine := machine e @ ''.''\<rparr>),
      display_buffer_as_rgbx = machine,
      open_emu = (\<lambda>fn e. case fn of
                     None \<Rightarrow> (Some (TypeError ''open''), e)
                   | Some f \<Rightarrow> (None, e\<lparr>powered := False, machine := []\<rparr>)),
      reset = (\<lambda>e. e\<lparr>machine := []\<rparr>),
      pause = (\<lambda>e. e\<lparr>powered := False\<rparr>),
      resume = (\<lambda>e. e\<lparr>powered := True\<rparr>),
      destroy = (\<lambda>e. e\<lparr>powered := False, machine := []\<rparr>),
      save_file = (\<lambda>p e fs. if machine e = []
                     then (Some (RuntimeError ''Unable to save the savestate''), fs)
                     else (None, fs(p \<mapsto> machine e))),
      load_file = (\<lambda>p fs e. case fs p of
                     None \<Rightarrow> (Some (RuntimeError ''Unable to load the savestate''), e)
                   | Some m \<Rightarrow> (None, e\<lparr>machine := m\<rparr>))\<rparr>"

text \<open>
  The same emulator with a clock that advances by one tick at every reading, and with a
  clock that stands still.
\<close>

definition toy_fine_clock :: "(toy_emulator, string) desmume" where
  "toy_fine_clock = toy_desmume\<lparr>get_ticks := (\<lambda>e. (clock e, e\<lparr>clock := clock e + 1\<rparr>))\<rparr>"

definition toy_stopped_clock :: "(toy_emulator, string) desmume" where
  "toy_stopped_clock = toy_desmume\<lparr>get_ticks := (\<lambda>e. (clock e, e))\<rparr>"

text \<open>
  A ground engine state that is the name of the loaded script; its document is the same
  name, written to the file between double quotes; a name with a double quote in it is
  written up to that quote and then refused. Without a script there is nothing to
  serialize.
\<close>

definition toy_ground_engine :: "(string, string) ground_engine" where
  "toy_ground_engine =
     \<lparr>serialize = (\<lambda>g. if g = [] then Inl (ValueError ''no script loaded'') else Inr g),
      deserialize = (\<lambda>d g. Inr d),
      reset_ges = (\<lambda>g. []),
      json_dump = (\<lambda>d. if CHR 0x22 \<in> set d
                        then (Some (ValueError ''quote in name''),
                              [CHR 0x22] @ takeWhile (\<lambda>c. c \<noteq> CHR 0x22) d)
                        else (None, [CHR 0x22] @ d @ [CHR 0x22])),
      json_load = (\<lambda>c. if 2 \<le> length c \<and> hd c = CHR 0x22 \<and> last c = CHR 0x22
                        then Inr (butlast (tl c))
                        else Inl (ValueError ''Expecting value''))\<rparr>"

text \<open>
  The emulator thread after its start, a debugger halted at a breakpoint with two hooks,
  a ground engine state with one actor, and a main controller with a ROM opened.
\<close>

definition toy_thread :: "(toy_emulator, string) EmulatorThread" where
  "toy_thread =
     run_start 0 toy_desmume
       (EmulatorThread_init \<lparr>clock = 0, powered = True, machine = ''m0''\<rparr>)"

definition toy_breakpoint :: BreakpointState where
  "toy_breakpoint =
     \<lparr>hanger_id = 3, stopped = True, hard_failed = False,
      release_hooks = [OtherHook ''code_editor'', MainController_break_released]\<rparr>"

definition toy_ges :: "(bbox, unit) GroundEngineState" where
  "toy_ges =
     \<lparr>running = True, ges_map = (), actors = [None, Some (0, 0, 8, 16)],
      objects = [], performers = [], events = []\<rparr>"

definition toy_controller :: "(toy_emulator, string, string) MainController" where
  "toy_controller =
     \<lparr>emu_thread = Some toy_thread, rom_filename = Some ''/roms/game.nds'',
      priv_emu_is_running = True, priv_stopped = False, breakpoint_state = None,
      ground_engine_state = Some ''script'',
      config_dir = path_join ''/home/u/.config/skytemple'' ''debugger'',
      emulator_controls_volume = True, files = Map.empty, open_for_writing = (\<lambda>p. None),
      trace = []\<rparr>"

text \<open>
  Entities that are their own bounding box, an overlay that is enabled and has drawn
  once, so that a refresh is scheduled, and the same overlay after \<open>break_pulled\<close>.
\<close>

definition toy_bb :: "bbox \<Rightarrow> unit \<Rightarrow> bbox" where
  "toy_bb n m = n"

definition toy_overlay :: DebugOverlayController where
  "toy_overlay = snd (snd (draw 1 (toggle True (DebugOverlayController_init True))))"

definition toy_overlay_halted :: DebugOverlayController where
  "toy_overlay_halted = break_pulled_overlay toy_overlay"

text \<open>The number of refresh attempts in a list of overlay actions.\<close>

fun refresh_runs :: "('n, 'm) overlay_action list \<Rightarrow> nat" where
  "refresh_runs [] = 0"
| "refresh_runs (Draw d # acts) = refresh_runs acts"
| "refresh_runs (Refresh ges # acts) = Suc (refresh_runs acts)"

text \<open>
  The main controller after slot 1 was saved while the emulator was paused, and the same
  controller after the emulator has been resumed and has run on.
\<close>

definition toy_saved :: "(toy_emulator, string, string) MainController" where
  "toy_saved =
     savestate toy_desmume toy_ground_engine 1
       (set_emu \<lparr>clock = 0, powered = False, machine = ''m0''\<rparr> toy_controller)"

definition toy_resumed :: "(toy_emulator, string, string) MainController" where
  "toy_resumed = set_emu \<lparr>clock = 40, powered = True, machine = ''m0..''\<rparr> toy_saved"

text \<open>
  The breakpoint state that \<open>fail_hard\<close> leaves in the main controller: none when the
  hook of the main controller was registered, else the hard-failed one.
\<close>

definition after_fail_hard :: "BreakpointState \<Rightarrow> BreakpointState option" where
  "after_fail_hard bs =
     (if MainController_break_released \<in> set (release_hooks bs) then None
      else Some (bs\<lparr>stopped := False, hard_failed := True\<rparr>))"

text \<open>
  The events of the call of \<open>fail_hard\<close> that opens the teardown functions, and the
  breakpoint state it leaves: nothing happens without a breakpoint state.
\<close>

definition bp_events :: "('e, 'b, 'g) MainController \<Rightarrow> event list" where
  "bp_events s =
     (case breakpoint_state s of
        None \<Rightarrow> []
      | Some bs \<Rightarrow> fail_hard_events (emulator_controls_volume s) bs)"

definition bp_after :: "('e, 'b, 'g) MainController \<Rightarrow> BreakpointState option" where
  "bp_after s = (case breakpoint_state s of None \<Rightarrow> None | Some bs \<Rightarrow> after_fail_hard bs)"



text \<open>
  The clock reading that the busy wait sees after \<open>n\<close> more calls of \<open>get_ticks\<close>.
\<close>

fun tick_readings :: "('e, 'b) desmume \<Rightarrow> nat \<Rightarrow> int \<Rightarrow> 'e \<Rightarrow> int \<times> 'e" where
  "tick_readings D 0 cur e = (cur, e)"
| "tick_readings D (Suc n) cur e = (case get_ticks D e of (c, e') \<Rightarrow> tick_readings D n c e')"



section \<open>Properties\<close>

subsection \<open>The emulator accessor\<close>

text \<open>
  C9. The claim is that every access to the emulator through the property \<open>emu\<close> from a
  thread other than the emulator thread fails with an error. The check is made only when
  \<open>THREAD_DEBUG\<close> is set: then an access from another thread raises the
  \<open>RuntimeError\<close>; without \<open>THREAD_DEBUG\<close>, or on the emulator thread, the accessor
  returns the emulator.
\<close>

theorem emu_foreign_thread_guard:
  "(THREAD_DEBUG \<and> Some cur \<noteq> priv_thread_instance t \<longrightarrow>
      emu THREAD_DEBUG cur t =
        Inl (RuntimeError ''The emulator may only be accessed from withing the emulator thread''))
   \<and> (\<not> THREAD_DEBUG \<or> Some cur = priv_thread_instance t \<longrightarrow>
      emu THREAD_DEBUG cur t = Inr (priv_emu t))"
  by (simp add: emu_def)

theorem emu_foreign_thread_guard_witness:
  "Some (1::nat) \<noteq> priv_thread_instance toy_thread
   \<and> emu True 1 toy_thread =
       Inl (RuntimeError ''The emulator may only be accessed from withing the emulator thread'')
   \<and> emu False 1 toy_thread = Inr (priv_emu toy_thread)
   \<and> Some (0::nat) = priv_thread_instance toy_thread
   \<and> emu True 0 toy_thread = Inr (priv_emu toy_thread)"
  using emu_foreign_thread_guard [of True 1 toy_thread]
        emu_foreign_thread_guard [of False 1 toy_thread]
        emu_foreign_thread_guard [of True 0 toy_thread]
  by (simp add: toy_thread_def run_start_def EmulatorThread_init_def Let_def)

text \<open>
  With \<open>THREAD_DEBUG\<close> off, thread 1 reads the emulator of the thread that runs as
  thread 0.
\<close>

theorem emu_foreign_thread_counterexample:
  "Some (1::nat) \<noteq> priv_thread_instance toy_thread
   \<and> emu False 1 toy_thread = Inr \<lparr>clock = 0, powered = True, machine = ''m0''\<rparr>"
  by (simp add: emu_def toy_thread_def run_start_def EmulatorThread_init_def Let_def)

subsection \<open>The property \<open>emu_is_running\<close>\<close>

text \<open>
  C10. The property \<open>emu_is_running\<close> of the main controller is \<open>False\<close> whenever a
  breakpoint state exists and is stopped, whatever \<open>_emu_is_running\<close> holds; when no
  stopped breakpoint state exists it is the stored \<open>_emu_is_running\<close>.
\<close>

theorem emu_is_running_property:
  "(breakpoint_state s = Some bs \<and> is_stopped bs \<longrightarrow> emu_is_running s = False)
   \<and> ((\<forall>bs. breakpoint_state s = Some bs \<longrightarrow> \<not> is_stopped bs) \<longrightarrow>
        emu_is_running s = priv_emu_is_running s)"
  by (auto simp: emu_is_running_def split: option.splits)

theorem emu_is_running_property_witness:
  "breakpoint_state (toy_controller\<lparr>breakpoint_state := Some toy_breakpoint\<rparr>) = Some toy_breakpoint
   \<and> is_stopped toy_breakpoint
   \<and> priv_emu_is_running (toy_controller\<lparr>breakpoint_state := Some toy_breakpoint\<rparr>)
   \<and> emu_is_running (toy_controller\<lparr>breakpoint_state := Some toy_breakpoint\<rparr>) = False
   \<and> breakpoint_state toy_controller = None
   \<and> emu_is_running toy_controller = True
   \<and> emu_is_running
        (toy_controller\<lparr>breakpoint_state := Some (toy_breakpoint\<lparr>stopped := False\<rparr>),
                        priv_emu_is_running := False\<rparr>) = False
   \<and> emu_is_running
        (toy_controller\<lparr>breakpoint_state := Some (toy_breakpoint\<lparr>stopped := False\<rparr>)\<rparr>) = True"
  using emu_is_running_property
          [of "toy_controller\<lparr>breakpoint_state := Some toy_breakpoint\<rparr>" toy_breakpoint]
        emu_is_running_property [of toy_controller toy_breakpoint]
        emu_is_running_property
          [of "toy_controller\<lparr>breakpoint_state := Some (toy_breakpoint\<lparr>stopped := False\<rparr>),
                               priv_emu_is_running := False\<rparr>" toy_breakpoint]
        emu_is_running_property
          [of "toy_controller\<lparr>breakpoint_state := Some (toy_breakpoint\<lparr>stopped := False\<rparr>)\<rparr>"
              toy_breakpoint]
  by (simp add: toy_controller_def toy_breakpoint_def is_stopped_def)

subsection \<open>The overlay cache\<close>

lemma toy_overlay_eq:
  "toy_overlay =
     (DebugOverlayController_init True)\<lparr>enabled := True, priv_cache_redrawing_registered := True\<rparr>"
  by (simp add: toy_overlay_def draw_def toggle_def DebugOverlayController_init_def Let_def)

lemma draw_frozen:
  "\<not> priv_refresh_cache c \<Longrightarrow> snd (draw d c) = (False, c)"
  by (simp add: draw_def Let_def)

lemma overlay_step_draw_frozen:
  "\<not> priv_refresh_cache c \<Longrightarrow> overlay_step bb (Draw d) (p, c) = (p, c)"
  using draw_frozen [of c d] by (cases "draw d c") simp

lemma update_cache_frozen:
  "\<not> priv_refresh_cache c \<Longrightarrow>
     \<not> fst (update_cache bb ges c)
     \<and> \<not> priv_refresh_cache (snd (update_cache bb ges c))
     \<and> \<not> priv_cache_redrawing_registered (snd (update_cache bb ges c))
     \<and> (\<not> running ges \<longrightarrow> bbox_caches (snd (update_cache bb ges c)) = bbox_caches c)"
  by (simp add: update_cache_def Let_def bbox_caches_def)

lemma overlay_steps_pending:
  "\<not> priv_refresh_cache c \<Longrightarrow>
     fst (overlay_steps bb acts (p, c)) = p - refresh_runs acts
     \<and> \<not> priv_refresh_cache (snd (overlay_steps bb acts (p, c)))"
proof (induction acts arbitrary: p c)
  case Nil
  then show ?case by simp
next
  case (Cons a acts)
  show ?case
  proof (cases a)
    case (Draw d)
    with Cons.prems Cons.IH [of c p] show ?thesis
      by (simp add: overlay_step_draw_frozen del: overlay_step.simps)
  next
    case (Refresh ges)
    obtain again c' where u: "update_cache bb ges c = (again, c')"
      by (cases "update_cache bb ges c")
    from update_cache_frozen [OF Cons.prems, of bb ges] u
    have f: "\<not> again" "\<not> priv_refresh_cache c'" by simp_all
    show ?thesis
    proof (cases "p = 0")
      case True
      with Refresh Cons.prems Cons.IH [of c 0] show ?thesis by simp
    next
      case False
      with Refresh u f Cons.IH [of c' "p - 1"] show ?thesis by simp
    qed
  qed
qed

lemma overlay_steps_idle:
  "\<not> priv_refresh_cache c \<Longrightarrow> overlay_steps bb acts (0, c) = (0, c)"
proof (induction acts)
  case Nil
  then show ?case by simp
next
  case (Cons a acts)
  then show ?case
    by (cases a) (simp_all add: overlay_step_draw_frozen del: overlay_step.simps, simp)
qed

text \<open>
  C5. The claim is that after \<open>break_pulled()\<close> every run of the refresh path leaves the
  four bounding-box collections unchanged until \<open>break_released()\<close>. What holds while
  \<open>_refresh_cache\<close> is off: \<open>draw\<close> leaves the collections as they are and schedules
  no refresh; a run of \<open>_update_cache\<close> does not schedule itself again and clears
  \<open>_cache_redrawing_registered\<close>, and it leaves the collections as they are when the
  ground engine is not running; each refresh that was scheduled before takes one from
  the scheduled runs, and with none scheduled the collections stay as they are through
  any draws and refresh attempts. A scheduled run that finds the ground engine running
  still rebuilds the collections.
\<close>

theorem overlay_frozen_after_break_pulled:
  assumes "\<not> priv_refresh_cache c"
  shows "bbox_caches (snd (snd (draw display_id c))) = bbox_caches c
         \<and> \<not> fst (snd (draw display_id c))
         \<and> \<not> fst (update_cache bb ges c)
         \<and> \<not> priv_cache_redrawing_registered (snd (update_cache bb ges c))
         \<and> (\<not> running ges \<longrightarrow> bbox_caches (snd (update_cache bb ges c)) = bbox_caches c)
         \<and> fst (overlay_steps bb acts (p, c)) = p - refresh_runs acts
         \<and> bbox_caches (snd (overlay_steps bb acts (0, c))) = bbox_caches c"
  using assms draw_frozen [OF assms, of display_id] update_cache_frozen [OF assms, of bb ges]
    overlay_steps_pending [OF assms, of bb acts p] overlay_steps_idle [OF assms, of bb acts]
  by simp

theorem overlay_frozen_after_break_pulled_witness:
  "\<not> priv_refresh_cache toy_overlay_halted
   \<and> bbox_caches (snd (snd (draw 1 toy_overlay_halted))) = bbox_caches toy_overlay_halted
   \<and> \<not> fst (snd (draw 1 toy_overlay_halted))
   \<and> \<not> fst (update_cache toy_bb (toy_ges\<lparr>running := False\<rparr>) toy_overlay_halted)
   \<and> \<not> running (toy_ges\<lparr>running := False\<rparr>)
   \<and> bbox_caches (snd (update_cache toy_bb (toy_ges\<lparr>running := False\<rparr>) toy_overlay_halted))
       = bbox_caches toy_overlay_halted
   \<and> fst (overlay_steps toy_bb [Draw 1, Refresh toy_ges, Draw 1, Refresh toy_ges]
            (1, toy_overlay_halted)) = 0
   \<and> bbox_caches (snd (overlay_steps toy_bb [Draw 1, Refresh toy_ges, Draw 1]
                         (0, toy_overlay_halted)))
       = bbox_caches toy_overlay_halted"
  using overlay_frozen_after_break_pulled
          [of toy_overlay_halted 1 toy_bb "toy_ges\<lparr>running := False\<rparr>"
              "[Draw 1, Refresh toy_ges, Draw 1, Refresh toy_ges]" 1]
        overlay_frozen_after_break_pulled
          [of toy_overlay_halted 1 toy_bb "toy_ges\<lparr>running := False\<rparr>"
              "[Draw 1, Refresh toy_ges, Draw 1]" 0]
  by (simp add: toy_overlay_halted_def break_pulled_overlay_def)

text \<open>
  The overlay has drawn once, which scheduled a refresh, and then \<open>break_pulled\<close> was
  called. The scheduled refresh finds the ground engine running and fills the empty
  actor collection.
\<close>

theorem overlay_refresh_after_break_pulled_counterexample:
  "\<not> priv_refresh_cache toy_overlay_halted
   \<and> priv_cache_redrawing_registered toy_overlay_halted
   \<and> bbox_caches toy_overlay_halted = ([], [], [], [])
   \<and> bbox_caches (snd (update_cache toy_bb toy_ges toy_overlay_halted))
       = ([(0, 0, 8, 16)], [], [], [])"
  by (simp add: toy_overlay_halted_def toy_overlay_eq break_pulled_overlay_def
      DebugOverlayController_init_def update_cache_def toy_ges_def toy_bb_def
      bbox_caches_def Let_def)

text \<open>
  C6. When the ground engine is not running at a refresh, the cached running flag is set
  to false and the bounding-box collections are not rebuilt, so that the next draw draws
  nothing; a draw draws nothing unless the cached running flag is true, and what it draws
  then is the rectangles of the four collections.
\<close>

theorem stale_collections_not_drawn:
  "(\<not> running ges \<longrightarrow>
      \<not> priv_cache_running (snd (update_cache bb ges c))
      \<and> bbox_caches (snd (update_cache bb ges c)) = bbox_caches c
      \<and> fst (draw display_id (snd (update_cache bb ges c))) = [])
   \<and> (\<not> priv_cache_running c \<longrightarrow> fst (draw display_id c) = [])
   \<and> (priv_cache_running c \<and> display_id = 1 \<and> enabled c \<and> debugger c \<longrightarrow>
        fst (draw display_id c) =
          concat (map (draw_bbox COLOR_ACTOR) (priv_actor_bbox_cache c))
          @ concat (map (draw_bbox COLOR_OBJECTS) (priv_object_bbox_cache c))
          @ concat (map (draw_bbox COLOR_PERFORMER) (priv_perf_bbox_cache c))
          @ concat (map (draw_bbox COLOR_EVENTS) (priv_event_bbox_cache c)))"
  by (simp add: update_cache_def draw_def bbox_caches_def Let_def)

theorem stale_collections_not_drawn_witness:
  "\<not> running (toy_ges\<lparr>running := False\<rparr>)
   \<and> \<not> priv_cache_running (snd (update_cache toy_bb (toy_ges\<lparr>running := False\<rparr>) toy_overlay))
   \<and> bbox_caches (snd (update_cache toy_bb (toy_ges\<lparr>running := False\<rparr>) toy_overlay))
       = bbox_caches toy_overlay
   \<and> fst (draw 1 (snd (update_cache toy_bb (toy_ges\<lparr>running := False\<rparr>) toy_overlay))) = []
   \<and> \<not> priv_cache_running toy_overlay
   \<and> fst (draw 1 toy_overlay) = []
   \<and> priv_cache_running (snd (update_cache toy_bb toy_ges toy_overlay))
   \<and> fst (draw 1 (snd (update_cache toy_bb toy_ges toy_overlay)))
       = [set_source_rgba (255, 0, 255, 7 / 10), rectangle 0 0 8 16, fill]"
  using stale_collections_not_drawn [of "toy_ges\<lparr>running := False\<rparr>" toy_bb toy_overlay 1]
        stale_collections_not_drawn
          [of toy_ges toy_bb "snd (update_cache toy_bb toy_ges toy_overlay)" 1]
  by (simp add: toy_overlay_eq DebugOverlayController_init_def update_cache_def toy_ges_def
      toy_bb_def Let_def draw_bbox_def COLOR_ACTOR_def ALPHA_T_def)

subsection \<open>The pacing of the emulation cycle\<close>

lemma ticks_to_wait_nonneg: "0 \<le> ticks_to_wait cur prev"
  by (simp add: ticks_to_wait_def Let_def)

lemma ticks_to_wait_upper:
  "TICKS_PER_FRAME \<le> cur - prev \<Longrightarrow> ticks_to_wait cur prev \<le> 11 / 750"
  by (simp add: ticks_to_wait_def Let_def TICKS_PER_FRAME_def FRAMES_PER_SECOND_def field_simps)

lemma wait_ticks_result:
  assumes "wait_ticks D prev cur e = Some y"
  shows "TICKS_PER_FRAME \<le> fst y - prev"
proof (rule wait_ticks.raw_induct
         [where P = "\<lambda>D prev cur e y. TICKS_PER_FRAME \<le> fst y - prev", OF _ assms])
  fix wt and D :: "('a, 'b) desmume" and prev cur :: int and e :: 'a and y :: "int \<times> 'a"
  assume IH: "\<And>D prev cur e y. wt D prev cur e = Some y \<Longrightarrow> TICKS_PER_FRAME \<le> fst y - prev"
    and body: "(if cur - prev < TICKS_PER_FRAME
                then case get_ticks D e of (c, e') \<Rightarrow> wt D prev c e'
                else Some (cur, e)) = Some y"
  show "TICKS_PER_FRAME \<le> fst y - prev"
  proof (cases "cur - prev < TICKS_PER_FRAME")
    case True
    with body IH show ?thesis by (auto split: prod.splits)
  next
    case False
    with body show ?thesis by auto
  qed
qed

lemma fps_count_frame:
  "loop (fps_count D t) = loop t"
  "registered_main_loop (fps_count D t) = registered_main_loop t"
  "priv_ticks_prev_frame (fps_count D t) = priv_ticks_prev_frame t"
  "priv_thread_instance (fps_count D t) = priv_thread_instance t"
  by (simp_all add: fps_count_def Let_def split: prod.splits)


lemma emu_cycle_running:
  assumes "emu_cycle THREAD_DEBUG cur D t = Some (Inr True, t')"
  shows "\<exists>l. loop t = Some l
           \<and> loop t' = Some (call_later (ticks_to_wait (priv_ticks_cur_frame t')
                                           (priv_ticks_prev_frame t)) EmuCycle l)
           \<and> TICKS_PER_FRAME \<le> priv_ticks_cur_frame t' - priv_ticks_prev_frame t
           \<and> registered_main_loop t' = registered_main_loop t
           \<and> priv_thread_instance t' = priv_thread_instance t"
  using assms
  by (auto simp: emu_cycle_def Let_def fps_count_frame
           split: sum.splits if_splits prod.splits option.splits
           dest: wait_ticks_result)

lemma emu_cycle_not_running:
  assumes "emu_cycle THREAD_DEBUG cur D t = Some (Inr False, t')"
  shows "loop t' = loop t \<and> \<not> registered_main_loop t'
         \<and> priv_thread_instance t' = priv_thread_instance t"
  using assms
  by (auto simp: emu_cycle_def Let_def fps_count_frame
           split: sum.splits if_splits prod.splits option.splits)

lemma emu_cycle_raises:
  assumes "emu_cycle THREAD_DEBUG cur D t = Some (Inl err, t')"
  shows "loop t' = loop t
         \<and> (Some cur = priv_thread_instance t \<longrightarrow> loop t = None)"
  using assms
  by (auto simp: emu_cycle_def Let_def fps_count_frame emu_def
           split: sum.splits if_splits prod.splits option.splits)


lemma toy_thread_eq:
  "toy_thread =
     \<lparr>loop = Some \<lparr>ready = [], timers = []\<rparr>,
      priv_emu = \<lparr>clock = 0, powered = True, machine = ''m0''\<rparr>,
      priv_thread_instance = Some 0, registered_main_loop = False,
      priv_display_buffer = Some ''m0'', priv_fps_frame_count = 0, priv_fps_sec_start = 0,
      priv_fps = 0, priv_ticks_prev_frame = 0, priv_ticks_cur_frame = 0\<rparr>"
  by (simp add: toy_thread_def run_start_def EmulatorThread_init_def Let_def toy_desmume_def)

lemma toy_wait_ticks: "wait_ticks toy_desmume 0 10 \<lparr>clock = 15, powered = True, machine = ''m0.''\<rparr>
   = Some (20, \<lparr>clock = 25, powered = True, machine = ''m0.''\<rparr>)"
  by (simp add: wait_ticks.simps TICKS_PER_FRAME_def toy_desmume_def)

lemma toy_emu_cycle:
  "emu_cycle True 0 toy_desmume toy_thread =
     Some (Inr True,
       \<lparr>loop = Some \<lparr>ready = [], timers = [(7 / 600, EmuCycle)]\<rparr>,
        priv_emu = \<lparr>clock = 30, powered = True, machine = ''m0.''\<rparr>,
        priv_thread_instance = Some 0, registered_main_loop = False,
        priv_display_buffer = Some ''m0.'', priv_fps_frame_count = 1, priv_fps_sec_start = 0,
        priv_fps = 0, priv_ticks_prev_frame = 25, priv_ticks_cur_frame = 20\<rparr>)"
  using toy_wait_ticks
  by (simp add: emu_cycle_def emu_def toy_thread_eq fps_count_def Let_def toy_desmume_def
      ticks_to_wait_def TICKS_PER_FRAME_def FRAMES_PER_SECOND_def call_later_def)

text \<open>
  The busy wait returns as soon as a reading of the clock is a frame's worth of ticks
  past the previous frame.
\<close>

lemma wait_ticks_returns:
  "TICKS_PER_FRAME \<le> fst (tick_readings D n cur e) - prev \<Longrightarrow>
     \<exists>y. wait_ticks D prev cur e = Some y"
proof (induction n arbitrary: cur e)
  case 0
  then show ?case by (simp add: wait_ticks.simps)
next
  case (Suc n)
  show ?case
  proof (cases "cur - prev < TICKS_PER_FRAME")
    case False
    then show ?thesis by (simp add: wait_ticks.simps)
  next
    case True
    obtain c e' where g: "get_ticks D e = (c, e')" by (cases "get_ticks D e")
    with Suc.prems have "TICKS_PER_FRAME \<le> fst (tick_readings D n c e') - prev" by simp
    then obtain y where "wait_ticks D prev c e' = Some y" using Suc.IH by blast
    with True g show ?thesis by (subst wait_ticks.simps) simp
  qed
qed

text \<open>
  The busy wait returns the first reading of the clock that is a frame's worth of ticks
  past the previous frame, and does not return when there is no such reading.
\<close>

lemma tick_readings_Suc:
  "get_ticks D e = (c, e') \<Longrightarrow> tick_readings D (Suc n) cur e = tick_readings D n c e'"
  by simp

lemma wait_ticks_first_reading:
  "TICKS_PER_FRAME \<le> fst (tick_readings D n cur e) - prev \<Longrightarrow>
   (\<forall>m<n. fst (tick_readings D m cur e) - prev < TICKS_PER_FRAME) \<Longrightarrow>
     wait_ticks D prev cur e = Some (tick_readings D n cur e)"
proof (induction n arbitrary: cur e)
  case 0
  then show ?case by (simp add: wait_ticks.simps)
next
  case (Suc n)
  from Suc.prems(2) have lt: "cur - prev < TICKS_PER_FRAME" by force
  obtain c e' where g: "get_ticks D e = (c, e')" by (cases "get_ticks D e")
  from Suc.prems(1) g have a: "TICKS_PER_FRAME \<le> fst (tick_readings D n c e') - prev" by simp
  have b: "\<forall>m<n. fst (tick_readings D m c e') - prev < TICKS_PER_FRAME"
  proof (intro allI impI)
    fix m assume "m < n"
    then have "Suc m < Suc n" by simp
    with Suc.prems(2) have "fst (tick_readings D (Suc m) cur e) - prev < TICKS_PER_FRAME" by blast
    with g show "fst (tick_readings D m c e') - prev < TICKS_PER_FRAME" by simp
  qed
  from Suc.IH [OF a b] have "wait_ticks D prev c e' = Some (tick_readings D n c e')" .
  with lt g show ?case by (subst wait_ticks.simps) simp
qed

lemma wait_ticks_reading:
  assumes "wait_ticks D prev cur e = Some y"
  shows "\<exists>n. TICKS_PER_FRAME \<le> fst (tick_readings D n cur e) - prev
           \<and> (\<forall>m<n. fst (tick_readings D m cur e) - prev < TICKS_PER_FRAME)
           \<and> y = tick_readings D n cur e"
proof (rule wait_ticks.raw_induct
         [where P = "\<lambda>D prev cur e y. \<exists>n. TICKS_PER_FRAME \<le> fst (tick_readings D n cur e) - prev
           \<and> (\<forall>m<n. fst (tick_readings D m cur e) - prev < TICKS_PER_FRAME)
           \<and> y = tick_readings D n cur e", OF _ assms])
  fix wt and D :: "('a, 'b) desmume" and prev cur :: int and e :: 'a and y :: "int \<times> 'a"
  assume IH: "\<And>D prev cur e y. wt D prev cur e = Some y \<Longrightarrow>
                 \<exists>n. TICKS_PER_FRAME \<le> fst (tick_readings D n cur e) - prev
                   \<and> (\<forall>m<n. fst (tick_readings D m cur e) - prev < TICKS_PER_FRAME)
                   \<and> y = tick_readings D n cur e"
    and body: "(if cur - prev < TICKS_PER_FRAME
                then case get_ticks D e of (c, e') \<Rightarrow> wt D prev c e'
                else Some (cur, e)) = Some y"
  show "\<exists>n. TICKS_PER_FRAME \<le> fst (tick_readings D n cur e) - prev
           \<and> (\<forall>m<n. fst (tick_readings D m cur e) - prev < TICKS_PER_FRAME)
           \<and> y = tick_readings D n cur e"
  proof (cases "cur - prev < TICKS_PER_FRAME")
    case False
    with body have "y = tick_readings D 0 cur e" by simp
    with False have "TICKS_PER_FRAME \<le> fst (tick_readings D 0 cur e) - prev
           \<and> (\<forall>m<0. fst (tick_readings D m cur e) - prev < TICKS_PER_FRAME)
           \<and> y = tick_readings D 0 cur e" by simp
    then show ?thesis by blast
  next
    case True
    obtain c e' where g: "get_ticks D e = (c, e')" by (cases "get_ticks D e")
    with True body have "wt D prev c e' = Some y" by simp
    from IH [OF this] obtain n where
      n: "TICKS_PER_FRAME \<le> fst (tick_readings D n c e') - prev"
         "\<forall>m<n. fst (tick_readings D m c e') - prev < TICKS_PER_FRAME"
         "y = tick_readings D n c e'" by blast
    have "\<forall>m<Suc n. fst (tick_readings D m cur e) - prev < TICKS_PER_FRAME"
    proof (intro allI impI)
      fix m assume m: "m < Suc n"
      show "fst (tick_readings D m cur e) - prev < TICKS_PER_FRAME"
      proof (cases m)
        case 0
        with True show ?thesis by simp
      next
        case (Suc m')
        with m n(2) g show ?thesis by simp
      qed
    qed
    with n g have "TICKS_PER_FRAME \<le> fst (tick_readings D (Suc n) cur e) - prev
           \<and> (\<forall>m<Suc n. fst (tick_readings D m cur e) - prev < TICKS_PER_FRAME)
           \<and> y = tick_readings D (Suc n) cur e" by simp
    then show ?thesis by blast
  qed
qed

lemma wait_ticks_None:
  "wait_ticks D prev cur e = None \<longleftrightarrow>
     (\<forall>n. fst (tick_readings D n cur e) - prev < TICKS_PER_FRAME)"
proof
  assume a: "wait_ticks D prev cur e = None"
  show "\<forall>n. fst (tick_readings D n cur e) - prev < TICKS_PER_FRAME"
  proof (rule ccontr)
    assume "\<not> (\<forall>n. fst (tick_readings D n cur e) - prev < TICKS_PER_FRAME)"
    then obtain n where "TICKS_PER_FRAME \<le> fst (tick_readings D n cur e) - prev"
      by (auto simp: not_less)
    from wait_ticks_returns [OF this] a show False by simp
  qed
next
  assume a: "\<forall>n. fst (tick_readings D n cur e) - prev < TICKS_PER_FRAME"
  show "wait_ticks D prev cur e = None"
  proof (cases "wait_ticks D prev cur e")
    case None then show ?thesis .
  next
    case (Some y)
    from wait_ticks_reading [OF this] a show ?thesis by (auto simp: not_le [symmetric])
  qed
qed

lemma before_wait_frame:
  "loop (before_wait D t) = loop t"
  "priv_ticks_prev_frame (before_wait D t) = priv_ticks_prev_frame t"
  by (simp_all add: before_wait_def Let_def fps_count_frame split: prod.splits)

lemma emu_cycle_blocked:
  assumes "emu THREAD_DEBUG cur t = Inr e" "truthy D e" "is_running D e"
  shows "emu_cycle THREAD_DEBUG cur D t = None \<longleftrightarrow>
           wait_ticks D (priv_ticks_prev_frame t) (priv_ticks_cur_frame (before_wait D t))
             (priv_emu (before_wait D t)) = None"
  using assms
  by (auto simp: emu_cycle_def before_wait_def Let_def fps_count_frame
           split: prod.splits option.splits)

lemma emu_cycle_scheduled:
  assumes "emu THREAD_DEBUG cur t = Inr e" "truthy D e" "is_running D e" "loop t = Some l"
    and "wait_ticks D (priv_ticks_prev_frame t) (priv_ticks_cur_frame (before_wait D t))
             (priv_emu (before_wait D t)) = Some y"
  shows "\<exists>t'. emu_cycle THREAD_DEBUG cur D t = Some (Inr True, t')
           \<and> priv_ticks_cur_frame t' = fst y
           \<and> loop t' = Some (call_later (ticks_to_wait (fst y) (priv_ticks_prev_frame t))
                               EmuCycle l)"
  using assms
  by (auto simp: emu_cycle_def before_wait_def Let_def fps_count_frame
           split: prod.splits option.splits)


lemma stopped_clock_readings:
  "fst (tick_readings toy_stopped_clock n c e) = (if n = 0 then c else clock e)"
  by (induction n arbitrary: c) (simp_all add: toy_stopped_clock_def toy_desmume_def)

lemma toy_before_wait:
  "before_wait toy_desmume toy_thread =
     toy_thread\<lparr>priv_emu := \<lparr>clock = 15, powered = True, machine = ''m0.''\<rparr>,
                priv_fps_frame_count := 1, priv_ticks_cur_frame := 10\<rparr>"
  by (simp add: before_wait_def fps_count_def Let_def toy_thread_eq toy_desmume_def)

lemma toy_before_wait_fine:
  "before_wait toy_fine_clock toy_thread =
     toy_thread\<lparr>priv_emu := \<lparr>clock = 3, powered = True, machine = ''m0.''\<rparr>,
                priv_fps_frame_count := 1, priv_ticks_cur_frame := 2\<rparr>"
  by (simp add: before_wait_def fps_count_def Let_def toy_thread_eq toy_fine_clock_def
      toy_desmume_def)

lemma toy_before_wait_stopped:
  "before_wait toy_stopped_clock toy_thread =
     toy_thread\<lparr>priv_emu := \<lparr>clock = 0, powered = True, machine = ''m0.''\<rparr>,
                priv_fps_frame_count := 1, priv_ticks_cur_frame := 0\<rparr>"
  by (simp add: before_wait_def fps_count_def Let_def toy_thread_eq toy_stopped_clock_def
      toy_desmume_def)

lemma toy_stopped_blocked:
  "wait_ticks toy_stopped_clock 0 0 \<lparr>clock = 0, powered = True, machine = ''m0.''\<rparr> = None"
  by (simp add: wait_ticks_None stopped_clock_readings TICKS_PER_FRAME_def)

lemma toy_wait_ticks_fine:
  "wait_ticks toy_fine_clock 0 2 \<lparr>clock = 3, powered = True, machine = ''m0.''\<rparr>
     = Some (17, \<lparr>clock = 18, powered = True, machine = ''m0.''\<rparr>)"
  by (simp add: wait_ticks.simps TICKS_PER_FRAME_def toy_fine_clock_def toy_desmume_def)

text \<open>
  C8. The claim is that in every emulation cycle the wait computed before the next cycle
  is scheduled is not negative, and that the cycle never delays the scheduling of the next
  cycle by more than that wait. The first half holds: the wait is clamped at zero, and it
  is at most \<open>1/60 - 2/1000\<close> seconds, because a frame's worth of ticks has passed
  when it is computed. The second half does not hold: before the wait is computed the
  cycle keeps its thread in a busy wait, reading the clock of the emulator until a frame's
  worth of ticks has passed since the previous frame, however long that is. What holds
  for a cycle on a running emulator is: it does not return exactly when no reading of the
  clock reaches that mark; when the reading number \<open>n\<close> is the first to reach it, the
  cycle returns \<open>True\<close> with that reading as the current frame's ticks, and has added
  one \<open>call_later\<close> of \<open>_emu_cycle\<close> whose delay is the computed wait. A
  cycle that returns \<open>False\<close> or raises schedules nothing.
\<close>

theorem emu_cycle_wait_clamped:
  "0 \<le> ticks_to_wait c p
   \<and> (TICKS_PER_FRAME \<le> c - p \<longrightarrow> ticks_to_wait c p \<le> 11 / 750)
   \<and> (emu THREAD_DEBUG cur t = Inr e \<and> truthy D e \<and> is_running D e \<longrightarrow>
        (emu_cycle THREAD_DEBUG cur D t = None \<longleftrightarrow>
           (\<forall>n. fst (tick_readings D n (priv_ticks_cur_frame (before_wait D t))
                        (priv_emu (before_wait D t)))
                  - priv_ticks_prev_frame t < TICKS_PER_FRAME)))
   \<and> (emu THREAD_DEBUG cur t = Inr e \<and> truthy D e \<and> is_running D e \<and> loop t = Some l
        \<and> TICKS_PER_FRAME \<le> fst (tick_readings D n (priv_ticks_cur_frame (before_wait D t))
                                      (priv_emu (before_wait D t)))
                               - priv_ticks_prev_frame t
        \<and> (\<forall>m<n. fst (tick_readings D m (priv_ticks_cur_frame (before_wait D t))
                          (priv_emu (before_wait D t)))
                    - priv_ticks_prev_frame t < TICKS_PER_FRAME) \<longrightarrow>
        (\<exists>t'. emu_cycle THREAD_DEBUG cur D t = Some (Inr True, t')
            \<and> priv_ticks_cur_frame t'
                = fst (tick_readings D n (priv_ticks_cur_frame (before_wait D t))
                         (priv_emu (before_wait D t)))
            \<and> loop t' = Some (call_later (ticks_to_wait (priv_ticks_cur_frame t')
                                             (priv_ticks_prev_frame t)) EmuCycle l)))
   \<and> (emu_cycle THREAD_DEBUG cur D t = Some (Inr True, t') \<longrightarrow>
        (\<exists>l. loop t = Some l
           \<and> loop t' = Some (call_later (ticks_to_wait (priv_ticks_cur_frame t')
                                           (priv_ticks_prev_frame t)) EmuCycle l))
        \<and> TICKS_PER_FRAME \<le> priv_ticks_cur_frame t' - priv_ticks_prev_frame t
        \<and> ticks_to_wait (priv_ticks_cur_frame t') (priv_ticks_prev_frame t) \<le> 11 / 750)
   \<and> (emu_cycle THREAD_DEBUG cur D t = Some (r, t') \<and> r \<noteq> Inr True \<longrightarrow> loop t' = loop t)"
proof -
  let ?b = "before_wait D t"
  let ?rd = "\<lambda>n. fst (tick_readings D n (priv_ticks_cur_frame ?b) (priv_emu ?b))
                  - priv_ticks_prev_frame t"
  have a: "0 \<le> ticks_to_wait c p"
    by (rule ticks_to_wait_nonneg)
  have a2: "TICKS_PER_FRAME \<le> c - p \<longrightarrow> ticks_to_wait c p \<le> 11 / 750"
    using ticks_to_wait_upper by blast
  have b: "emu THREAD_DEBUG cur t = Inr e \<and> truthy D e \<and> is_running D e \<longrightarrow>
        (emu_cycle THREAD_DEBUG cur D t = None \<longleftrightarrow> (\<forall>n. ?rd n < TICKS_PER_FRAME))"
    using emu_cycle_blocked [of THREAD_DEBUG cur t e D]
      wait_ticks_None [of D "priv_ticks_prev_frame t" "priv_ticks_cur_frame ?b" "priv_emu ?b"]
    by simp
  have c: "emu THREAD_DEBUG cur t = Inr e \<and> truthy D e \<and> is_running D e \<and> loop t = Some l
        \<and> TICKS_PER_FRAME \<le> ?rd n \<and> (\<forall>m<n. ?rd m < TICKS_PER_FRAME) \<longrightarrow>
        (\<exists>t'. emu_cycle THREAD_DEBUG cur D t = Some (Inr True, t')
            \<and> priv_ticks_cur_frame t'
                = fst (tick_readings D n (priv_ticks_cur_frame ?b) (priv_emu ?b))
            \<and> loop t' = Some (call_later (ticks_to_wait (priv_ticks_cur_frame t')
                                             (priv_ticks_prev_frame t)) EmuCycle l))"
  proof (intro impI, elim conjE)
    assume h: "emu THREAD_DEBUG cur t = Inr e" "truthy D e" "is_running D e" "loop t = Some l"
      and r: "TICKS_PER_FRAME \<le> ?rd n" "\<forall>m<n. ?rd m < TICKS_PER_FRAME"
    from wait_ticks_first_reading [OF r]
    have w: "wait_ticks D (priv_ticks_prev_frame t) (priv_ticks_cur_frame ?b) (priv_emu ?b)
               = Some (tick_readings D n (priv_ticks_cur_frame ?b) (priv_emu ?b))" .
    from emu_cycle_scheduled [OF h w] obtain t' where
      t': "emu_cycle THREAD_DEBUG cur D t = Some (Inr True, t')"
          "priv_ticks_cur_frame t'
             = fst (tick_readings D n (priv_ticks_cur_frame ?b) (priv_emu ?b))"
          "loop t' = Some (call_later
              (ticks_to_wait (fst (tick_readings D n (priv_ticks_cur_frame ?b) (priv_emu ?b)))
                 (priv_ticks_prev_frame t)) EmuCycle l)"
      by blast
    from t'(3) t'(2) have "loop t' = Some (call_later (ticks_to_wait (priv_ticks_cur_frame t')
                                             (priv_ticks_prev_frame t)) EmuCycle l)" by simp
    with t'(1) t'(2) show "\<exists>t'. emu_cycle THREAD_DEBUG cur D t = Some (Inr True, t')
            \<and> priv_ticks_cur_frame t'
                = fst (tick_readings D n (priv_ticks_cur_frame ?b) (priv_emu ?b))
            \<and> loop t' = Some (call_later (ticks_to_wait (priv_ticks_cur_frame t')
                                             (priv_ticks_prev_frame t)) EmuCycle l)" by blast
  qed
  have d: "emu_cycle THREAD_DEBUG cur D t = Some (Inr True, t') \<longrightarrow>
        (\<exists>l. loop t = Some l
           \<and> loop t' = Some (call_later (ticks_to_wait (priv_ticks_cur_frame t')
                                           (priv_ticks_prev_frame t)) EmuCycle l))
        \<and> TICKS_PER_FRAME \<le> priv_ticks_cur_frame t' - priv_ticks_prev_frame t
        \<and> ticks_to_wait (priv_ticks_cur_frame t') (priv_ticks_prev_frame t) \<le> 11 / 750"
    using emu_cycle_running [of THREAD_DEBUG cur D t t'] ticks_to_wait_upper
    by blast
  have f: "emu_cycle THREAD_DEBUG cur D t = Some (r, t') \<and> r \<noteq> Inr True \<longrightarrow> loop t' = loop t"
  proof (cases r)
    case (Inl err)
    then show ?thesis using emu_cycle_raises [of THREAD_DEBUG cur D t err t'] by simp
  next
    case (Inr v)
    then show ?thesis using emu_cycle_not_running [of THREAD_DEBUG cur D t t'] by (cases v) simp_all
  qed
  show ?thesis by (intro conjI) (fact a a2 b c d f)+
qed

text \<open>
  The theorem at the toy thread: the first cycle of a running emulator, whose third
  reading in the busy wait ends it, the same cycle with a clock that stands still, and a
  cycle of a paused emulator.
\<close>

theorem emu_cycle_wait_clamped_witness:
  "ticks_to_wait 1010 0 = 0 \<and> 0 \<le> ticks_to_wait 1010 0 \<and> ticks_to_wait 1010 0 \<le> 11 / 750
   \<and> ticks_to_wait 20 0 = 7 / 600
   \<and> (\<exists>t'. emu_cycle True 0 toy_desmume toy_thread = Some (Inr True, t')
          \<and> priv_ticks_cur_frame t' = 20
          \<and> loop t' = Some \<lparr>ready = [], timers = [(7 / 600, EmuCycle)]\<rparr>)
   \<and> emu_cycle True 0 toy_stopped_clock toy_thread = None
   \<and> (\<exists>t'. emu_cycle True 0 toy_desmume
                (toy_thread\<lparr>priv_emu := \<lparr>clock = 0, powered = False, machine = ''m0''\<rparr>\<rparr>)
              = Some (Inr False, t')
          \<and> loop t' = Some \<lparr>ready = [], timers = []\<rparr>)"
proof -
  let ?e0 = "\<lparr>clock = 0, powered = True, machine = ''m0''\<rparr>"
  let ?l0 = "\<lparr>ready = [], timers = []\<rparr>"
  let ?t1 = "\<lparr>loop = Some \<lparr>ready = [], timers = [(7 / 600, EmuCycle)]\<rparr>,
        priv_emu = \<lparr>clock = 30, powered = True, machine = ''m0.''\<rparr>,
        priv_thread_instance = Some 0, registered_main_loop = False,
        priv_display_buffer = Some ''m0.'', priv_fps_frame_count = 1, priv_fps_sec_start = 0,
        priv_fps = 0, priv_ticks_prev_frame = 25, priv_ticks_cur_frame = 20\<rparr>"
  let ?p = "toy_thread\<lparr>priv_emu := \<lparr>clock = 0, powered = False, machine = ''m0''\<rparr>\<rparr>"
  let ?t2 = "?p\<lparr>priv_display_buffer := Some ''m0'', registered_main_loop := False\<rparr>"
  have r: "emu_cycle True 0 toy_desmume toy_thread = Some (Inr True, ?t1)"
    by (rule toy_emu_cycle)
  have q: "emu_cycle True 0 toy_desmume ?p = Some (Inr False, ?t2)"
    by (simp add: emu_cycle_def emu_def toy_thread_eq toy_desmume_def)
  have v: "ticks_to_wait 1010 0 = 0" "ticks_to_wait 20 0 = 7 / 600"
    by (simp_all add: ticks_to_wait_def Let_def TICKS_PER_FRAME_def FRAMES_PER_SECOND_def)
  have em: "emu True 0 toy_thread = Inr ?e0"
    by (simp add: emu_def toy_thread_eq)
  have run: "truthy toy_desmume ?e0" "is_running toy_desmume ?e0"
    "truthy toy_stopped_clock ?e0" "is_running toy_stopped_clock ?e0"
    by (simp_all add: toy_desmume_def toy_stopped_clock_def)
  have lp: "loop toy_thread = Some ?l0" "priv_ticks_prev_frame toy_thread = 0"
    by (simp_all add: toy_thread_eq)
  have bw: "priv_ticks_cur_frame (before_wait toy_desmume toy_thread) = 10"
    "priv_emu (before_wait toy_desmume toy_thread)
       = \<lparr>clock = 15, powered = True, machine = ''m0.''\<rparr>"
    "priv_ticks_cur_frame (before_wait toy_stopped_clock toy_thread) = 0"
    "priv_emu (before_wait toy_stopped_clock toy_thread)
       = \<lparr>clock = 0, powered = True, machine = ''m0.''\<rparr>"
    by (simp_all add: toy_before_wait toy_before_wait_stopped)
  have rd: "fst (tick_readings toy_desmume 0 10 \<lparr>clock = 15, powered = True, machine = ''m0.''\<rparr>) = 10"
    "fst (tick_readings toy_desmume 1 10 \<lparr>clock = 15, powered = True, machine = ''m0.''\<rparr>) = 15"
    "fst (tick_readings toy_desmume 2 10 \<lparr>clock = 15, powered = True, machine = ''m0.''\<rparr>) = 20"
    by (simp_all add: numeral_2_eq_2 toy_desmume_def)
  have early: "\<forall>m<2. fst (tick_readings toy_desmume m 10
                  \<lparr>clock = 15, powered = True, machine = ''m0.''\<rparr>) - 0 < TICKS_PER_FRAME"
  proof (intro allI impI)
    fix m :: nat assume "m < 2"
    then have "m = 0 \<or> m = 1" by auto
    with rd show "fst (tick_readings toy_desmume m 10
                  \<lparr>clock = 15, powered = True, machine = ''m0.''\<rparr>) - 0 < TICKS_PER_FRAME"
      by (auto simp: TICKS_PER_FRAME_def)
  qed
  have stuck: "\<forall>n. fst (tick_readings toy_stopped_clock n 0
                  \<lparr>clock = 0, powered = True, machine = ''m0.''\<rparr>) - 0 < TICKS_PER_FRAME"
    by (simp add: stopped_clock_readings TICKS_PER_FRAME_def)
  note w1 = emu_cycle_wait_clamped [where c = 1010 and p = 0 and THREAD_DEBUG = True and cur = 0
      and D = toy_desmume and t = toy_thread and t' = ?t1 and r = "Inr True" and e = ?e0
      and l = ?l0 and n = 2]
  note w2 = emu_cycle_wait_clamped [where c = 20 and p = 0 and THREAD_DEBUG = True and cur = 0
      and D = toy_desmume and t = ?p and t' = ?t2 and r = "Inr False"]
  note w3 = emu_cycle_wait_clamped [where c = 20 and p = 0 and THREAD_DEBUG = True and cur = 0
      and D = toy_stopped_clock and t = toy_thread and e = ?e0]
  have s1: "ticks_to_wait 1010 0 = 0 \<and> 0 \<le> ticks_to_wait 1010 0
      \<and> ticks_to_wait 1010 0 \<le> 11 / 750 \<and> ticks_to_wait 20 0 = 7 / 600"
    using w1 v by (simp add: TICKS_PER_FRAME_def)
  have "\<exists>t'. emu_cycle True 0 toy_desmume toy_thread = Some (Inr True, t')
          \<and> priv_ticks_cur_frame t' = 20
          \<and> loop t' = Some (call_later (ticks_to_wait (priv_ticks_cur_frame t') 0) EmuCycle ?l0)"
    using w1 em run lp bw rd early by (simp add: TICKS_PER_FRAME_def)
  then obtain t' where t': "emu_cycle True 0 toy_desmume toy_thread = Some (Inr True, t')"
      "priv_ticks_cur_frame t' = 20"
      "loop t' = Some (call_later (ticks_to_wait (priv_ticks_cur_frame t') 0) EmuCycle ?l0)"
    by blast
  from t'(2,3) have "loop t' = Some (call_later (ticks_to_wait 20 0) EmuCycle ?l0)" by simp
  then have "loop t' = Some \<lparr>ready = [], timers = [(7 / 600, EmuCycle)]\<rparr>"
    unfolding v(2) by (simp add: call_later_def)
  with t'(1,2) have s2: "\<exists>t'. emu_cycle True 0 toy_desmume toy_thread = Some (Inr True, t')
          \<and> priv_ticks_cur_frame t' = 20
          \<and> loop t' = Some \<lparr>ready = [], timers = [(7 / 600, EmuCycle)]\<rparr>"
    by blast
  have s3: "emu_cycle True 0 toy_stopped_clock toy_thread = None"
    using w3 em run lp bw stuck by simp
  have s4: "\<exists>t'. emu_cycle True 0 toy_desmume ?p = Some (Inr False, t')
          \<and> loop t' = Some \<lparr>ready = [], timers = []\<rparr>"
    using w2 q by (simp add: toy_thread_eq)
  from s1 s2 s3 s4 show ?thesis by simp
qed

text \<open>
  The first cycle of a thread whose emulator clock advances by one tick at every reading:
  the busy wait is entered at tick 2 and left at tick 17, fifteen thousandths of a second
  on the clock of the emulator, and the wait then computed is \<open>11/750\<close> seconds,
  which is less. With a clock that stands still the cycle does not return, and nothing
  is scheduled.
\<close>

theorem emu_cycle_busy_wait_counterexample:
  "emu_cycle True 0 toy_fine_clock toy_thread =
     Some (Inr True,
       \<lparr>loop = Some \<lparr>ready = [], timers = [(11 / 750, EmuCycle)]\<rparr>,
        priv_emu = \<lparr>clock = 19, powered = True, machine = ''m0.''\<rparr>,
        priv_thread_instance = Some 0, registered_main_loop = False,
        priv_display_buffer = Some ''m0.'', priv_fps_frame_count = 1, priv_fps_sec_start = 0,
        priv_fps = 0, priv_ticks_prev_frame = 18, priv_ticks_cur_frame = 17\<rparr>)
   \<and> priv_ticks_cur_frame (before_wait toy_fine_clock toy_thread) = 2
   \<and> ticks_to_wait 17 0 = 11 / 750
   \<and> (11 / 750 :: rat) < of_int (17 - 2) / 1000
   \<and> emu_cycle True 0 toy_stopped_clock toy_thread = None"
proof -
  have a: "emu_cycle True 0 toy_fine_clock toy_thread =
     Some (Inr True,
       \<lparr>loop = Some \<lparr>ready = [], timers = [(11 / 750, EmuCycle)]\<rparr>,
        priv_emu = \<lparr>clock = 19, powered = True, machine = ''m0.''\<rparr>,
        priv_thread_instance = Some 0, registered_main_loop = False,
        priv_display_buffer = Some ''m0.'', priv_fps_frame_count = 1, priv_fps_sec_start = 0,
        priv_fps = 0, priv_ticks_prev_frame = 18, priv_ticks_cur_frame = 17\<rparr>)"
    using toy_wait_ticks_fine
    by (simp add: emu_cycle_def emu_def toy_thread_eq fps_count_def Let_def toy_fine_clock_def
        toy_desmume_def ticks_to_wait_def TICKS_PER_FRAME_def FRAMES_PER_SECOND_def
        call_later_def)
  have b: "priv_ticks_cur_frame (before_wait toy_fine_clock toy_thread) = 2"
    by (simp add: toy_before_wait_fine)
  have c: "ticks_to_wait 17 0 = 11 / 750"
    by (simp add: ticks_to_wait_def Let_def TICKS_PER_FRAME_def FRAMES_PER_SECOND_def)
  have d: "(11 / 750 :: rat) < of_int (17 - 2) / 1000" by simp
  have em: "emu True 0 toy_thread = Inr \<lparr>clock = 0, powered = True, machine = ''m0''\<rparr>"
    by (simp add: emu_def toy_thread_eq)
  have run: "truthy toy_stopped_clock \<lparr>clock = 0, powered = True, machine = ''m0''\<rparr>"
    "is_running toy_stopped_clock \<lparr>clock = 0, powered = True, machine = ''m0''\<rparr>"
    by (simp_all add: toy_stopped_clock_def toy_desmume_def)
  have pv: "priv_ticks_prev_frame toy_thread = 0"
    by (simp add: toy_thread_eq)
  have w: "wait_ticks toy_stopped_clock (priv_ticks_prev_frame toy_thread)
             (priv_ticks_cur_frame (before_wait toy_stopped_clock toy_thread))
             (priv_emu (before_wait toy_stopped_clock toy_thread)) = None"
    using toy_stopped_blocked pv by (simp add: toy_before_wait_stopped)
  from emu_cycle_blocked [OF em run] w
  have e: "emu_cycle True 0 toy_stopped_clock toy_thread = None" by simp
  from a b c d e show ?thesis by simp
qed

subsection \<open>The chain of emulation cycles\<close>


















subsection \<open>Forced teardown of the breakpoint state\<close>

lemma break_released_eq:
  "break_released s =
     s\<lparr>breakpoint_state := None,
       trace := trace s @ break_released_events (emulator_controls_volume s)\<rparr>"
  by (simp add: break_released_def break_released_events_def log_def
      toggle_paused_debugging_features_def Let_def)

lemma call_release_hook_eq:
  "call_release_hook h s =
     s\<lparr>breakpoint_state := (if h = MainController_break_released then None else breakpoint_state s),
       trace := trace s @ release_hook_events (emulator_controls_volume s) h\<rparr>"
  by (cases h) (simp_all add: break_released_eq log_def)

lemma fold_call_release_hook_eq:
  "fold call_release_hook hooks s =
     s\<lparr>breakpoint_state :=
         (if MainController_break_released \<in> set hooks then None else breakpoint_state s),
       trace := trace s @ concat (map (release_hook_events (emulator_controls_volume s)) hooks)\<rparr>"
proof (induction hooks arbitrary: s)
  case Nil
  then show ?case by simp
next
  case (Cons h hooks)
  have "fold call_release_hook (h # hooks) s = fold call_release_hook hooks (call_release_hook h s)"
    by simp
  also have "\<dots> =
     (call_release_hook h s)\<lparr>breakpoint_state :=
         (if MainController_break_released \<in> set hooks then None
          else breakpoint_state (call_release_hook h s)),
       trace := trace (call_release_hook h s)
         @ concat (map (release_hook_events (emulator_controls_volume (call_release_hook h s))) hooks)\<rparr>"
    by (rule Cons.IH)
  also have "\<dots> =
     s\<lparr>breakpoint_state :=
         (if MainController_break_released \<in> set (h # hooks) then None else breakpoint_state s),
       trace := trace s
         @ concat (map (release_hook_events (emulator_controls_volume s)) (h # hooks))\<rparr>"
    by (simp add: call_release_hook_eq)
  finally show ?case .
qed

lemma fail_hard_eq:
  "breakpoint_state s = Some bs \<Longrightarrow>
     fail_hard s =
       s\<lparr>breakpoint_state := after_fail_hard bs,
         trace := trace s @ fail_hard_events (emulator_controls_volume s) bs\<rparr>"
  by (simp add: fail_hard_def fold_call_release_hook_eq log_def fail_hard_events_def
      after_fail_hard_def)


lemma fail_hard_if:
  "(\<not> b \<Longrightarrow> breakpoint_state s = None) \<Longrightarrow> (if b then fail_hard s else s) = fail_hard s"
  by (simp add: fail_hard_def)

lemma fail_hard_frame:
  "fail_hard s = s\<lparr>breakpoint_state := bp_after s, trace := trace s @ bp_events s\<rparr>"
proof (cases "breakpoint_state s")
  case None
  have "s\<lparr>breakpoint_state := breakpoint_state s\<rparr> = s" by simp
  with None show ?thesis by (simp add: fail_hard_def bp_events_def bp_after_def)
next
  case (Some bs)
  then show ?thesis by (simp add: fail_hard_eq bp_events_def bp_after_def)
qed

lemma bp_events_priv_stopped [simp]:
  "bp_events (s\<lparr>priv_stopped := v\<rparr>) = bp_events s"
  "bp_after (s\<lparr>priv_stopped := v\<rparr>) = bp_after s"
  by (simp_all add: bp_events_def bp_after_def cong: option.case_cong)

lemma bp_none [simp]:
  "breakpoint_state s = None \<Longrightarrow> bp_events s = []"
  "breakpoint_state s = None \<Longrightarrow> bp_after s = None"
  by (simp_all add: bp_events_def bp_after_def)




lemma emu_reset_ok:
  assumes "emu_thread s = Some t"
    and "ground_engine_state s = Some g"
    and "open_emu D (rom_filename s) (priv_emu t) = (None, e1)"
  shows "emu_reset D G s =
     (None,
      s\<lparr>emu_thread := Some (t\<lparr>priv_emu := e1\<rparr>),
        priv_emu_is_running := is_running D e1,
        breakpoint_state := bp_after s,
        ground_engine_state := Some (reset_ges G g),
        trace := trace s @ bp_events s @ [GesReset, EmuOpen (rom_filename s), EmuIsRunning]\<rparr>)"
  using assms
  by (simp add: emu_reset_def fail_hard_if fail_hard_frame Let_def threadsafe_emu_def coro_runner_def py_bool_def log_def
      set_emu_def emu_is_running_set_def del: not_None_eq)




subsection \<open>The savestate paths\<close>






lemma toy_paths:
  "config_dir toy_controller = ''/home/u/.config/skytemple/debugger''"
  "desmume_savestate_path ''/home/u/.config/skytemple/debugger'' ''/roms/game.nds'' 1
     = ''/home/u/.config/skytemple/debugger/game.nds.save.1.ds''"
  "ground_engine_savestate_path ''/home/u/.config/skytemple/debugger'' ''/roms/game.nds'' 1
     = ''/home/u/.config/skytemple/debugger/game.nds.save.1.ge.json''"
  by (simp_all add: toy_controller_def path_join_def desmume_savestate_path_def
      ground_engine_savestate_path_def basename_def str_int_def
      SAVESTATE_EXT_DESUME_def SAVESTATE_EXT_GROUND_ENGINE_def)










subsection \<open>Saving a savestate\<close>



lemma toy_controller_fields:
  "rom_filename toy_controller = Some ''/roms/game.nds''"
  "emu_thread toy_controller = Some toy_thread"
  "ground_engine_state toy_controller = Some ''script''"
  "breakpoint_state toy_controller = None"
  "files toy_controller = Map.empty"
  "trace toy_controller = []"
  "emulator_controls_volume toy_controller"
  by (simp_all add: toy_controller_def)





subsection \<open>Loading a savestate\<close>

text \<open>
  C1. The claim is that \<open>loadstate\<close> of a slot whose ground engine JSON file does
  not exist fails with a ``no debugger state for slot'' error and leaves the emulator
  snapshot alone. The function returns without an error and without any report: when the
  JSON file of the slot does not exist, \<open>loadstate\<close> does nothing at all, so there is
  no reset of the emulator, the snapshot is not loaded and no state changes.
\<close>

theorem loadstate_without_json:
  assumes "rom_filename s = Some fn"
    and "files s (ground_engine_savestate_path (config_dir s) fn i) = None"
  shows "loadstate D G i s = (None, s)"
  using assms by (simp add: loadstate_def Let_def)

theorem loadstate_without_json_witness:
  "rom_filename toy_controller = Some ''/roms/game.nds''
   \<and> files toy_controller
         (ground_engine_savestate_path (config_dir toy_controller) ''/roms/game.nds'' 2) = None
   \<and> loadstate toy_desmume toy_ground_engine 2 toy_controller = (None, toy_controller)"
  using loadstate_without_json
          [of toy_controller "''/roms/game.nds''" 2 toy_desmume toy_ground_engine]
  by (simp add: toy_controller_fields)

text \<open>
  Slot 1 has no JSON file: \<open>loadstate\<close> raises nothing and shows no dialog.
\<close>

theorem loadstate_without_json_counterexample:
  "files toy_controller ''/home/u/.config/skytemple/debugger/game.nds.save.1.ge.json'' = None
   \<and> ground_engine_savestate_path (config_dir toy_controller) ''/roms/game.nds'' 1
       = ''/home/u/.config/skytemple/debugger/game.nds.save.1.ge.json''
   \<and> fst (loadstate toy_desmume toy_ground_engine 1 toy_controller) = None
   \<and> trace (snd (loadstate toy_desmume toy_ground_engine 1 toy_controller)) = []"
  by (simp add: loadstate_def Let_def toy_controller_fields toy_paths)

subsection \<open>Teardown with an active breakpoint state\<close>




lemma toy_saved_eq:
  "toy_saved =
     toy_controller
       \<lparr>emu_thread := Some (toy_thread\<lparr>priv_emu := \<lparr>clock = 0, powered = False, machine = ''m0''\<rparr>\<rparr>),
        files := [''/home/u/.config/skytemple/debugger/game.nds.save.1.ge.json''
                    \<mapsto> [CHR 0x22] @ ''script'' @ [CHR 0x22],
                  ''/home/u/.config/skytemple/debugger/game.nds.save.1.ds'' \<mapsto> ''m0''],
        trace := [FileOpenWrite ''/home/u/.config/skytemple/debugger/game.nds.save.1.ge.json'',
                  GesSerialize,
                  EmuSaveFile ''/home/u/.config/skytemple/debugger/game.nds.save.1.ds'']\<rparr>"
  by (simp add: toy_saved_def savestate_def savestate_try_def toy_controller_fields toy_paths
      set_emu_def threadsafe_emu_def coro_runner_def py_bool_def log_def Let_def toy_ground_engine_def toy_desmume_def
      toy_controller_def path_join_def)



subsection \<open>The effects of loading a savestate\<close>

lemma bp_events_log [simp]:
  "bp_events (log ev s) = bp_events s"
  "bp_after (log ev s) = bp_after s"
  by (simp_all add: bp_events_def bp_after_def log_def cong: option.case_cong)

text \<open>
  C3. The claim is that a successful \<open>loadstate\<close> of a slot whose JSON file exists
  resets the emulation, loads the emulator snapshot, deserializes the JSON into the ground
  engine state and sets the running or paused buttons to match the \<open>is_running\<close> flag
  that was saved with the savestate. The effects and their order are as claimed, but the
  buttons follow the \<open>is_running\<close> flag that \<open>loadstate\<close> reads from the emulator
  at its start, before the reset: nothing in the savestate holds such a flag.
\<close>

theorem loadstate_sequence:
  assumes rom: "rom_filename s = Some fn"
    and thr: "emu_thread s = Some t"
    and ds: "ds = desmume_savestate_path (config_dir s) fn i"
    and ge: "ge = ground_engine_savestate_path (config_dir s) fn i"
    and json: "files s ge = Some content"
    and ges: "ground_engine_state s = Some g"
    and op: "open_emu D (Some fn) (priv_emu t) = (None, e1)"
    and ld: "load_file D ds (files s) e1 = (None, e2)"
    and jl: "json_load G content = Inr doc"
    and de: "deserialize G doc (reset_ges G g) = Inr g'"
  shows "loadstate D G i s =
     (None,
      s\<lparr>emu_thread := Some (t\<lparr>priv_emu := e2\<rparr>),
        priv_emu_is_running := is_running D e2,
        priv_stopped := False,
        breakpoint_state := bp_after s,
        ground_engine_state := Some g',
        trace := trace s @ [EmuIsRunning] @ bp_events s
          @ [GesReset, EmuOpen (Some fn), EmuIsRunning, EmuLoadFile ds, FileOpenRead ge,
             GesDeserialize, EmuIsRunning, TogglePausedDebuggingFeatures True, VariableSync,
             GroundStateSync,
             SetButtons (if is_running D (priv_emu t) then Running else Paused)]\<rparr>)"
proof -
  let ?s1 = "(log EmuIsRunning s)\<lparr>priv_stopped := False\<rparr>"
  have r: "emu_reset D G ?s1 =
     (None,
      ?s1\<lparr>emu_thread := Some (t\<lparr>priv_emu := e1\<rparr>),
        priv_emu_is_running := is_running D e1,
        breakpoint_state := bp_after ?s1,
        ground_engine_state := Some (reset_ges G g),
        trace := trace ?s1 @ bp_events ?s1 @ [GesReset, EmuOpen (rom_filename ?s1), EmuIsRunning]\<rparr>)"
    by (rule emu_reset_ok) (use thr ges op rom in \<open>simp_all add: log_def\<close>)
  have t: "loadstate_try D G ds ge s =
     (Inr (),
      s\<lparr>emu_thread := Some (t\<lparr>priv_emu := e2\<rparr>),
        priv_emu_is_running := is_running D e2,
        priv_stopped := False,
        breakpoint_state := bp_after s,
        ground_engine_state := Some g',
        trace := trace s @ [EmuIsRunning] @ bp_events s
          @ [GesReset, EmuOpen (Some fn), EmuIsRunning, EmuLoadFile ds, FileOpenRead ge,
             GesDeserialize, EmuIsRunning, TogglePausedDebuggingFeatures True, VariableSync,
             GroundStateSync,
             SetButtons (if is_running D (priv_emu t) then Running else Paused)]\<rparr>)"
    using thr rom json ld jl de
    by (simp add: loadstate_try_def threadsafe_emu_def coro_runner_def py_bool_def r [unfolded log_def] Let_def set_emu_def
        emu_is_running_set_def load_debugger_state_def toggle_paused_debugging_features_def
        log_def bp_events_log [unfolded log_def])
  show ?thesis
    using rom json t ds ge by (simp add: loadstate_def Let_def)
qed

lemma toy_resumed_fields:
  "emu_thread toy_resumed
     = Some (toy_thread\<lparr>priv_emu := \<lparr>clock = 40, powered = True, machine = ''m0..''\<rparr>\<rparr>)"
  "breakpoint_state toy_resumed = None"
  "rom_filename toy_resumed = Some ''/roms/game.nds''"
  "config_dir toy_resumed = ''/home/u/.config/skytemple/debugger''"
  "ground_engine_state toy_resumed = Some ''script''"
  "files toy_resumed ''/home/u/.config/skytemple/debugger/game.nds.save.1.ge.json''
     = Some ([CHR 0x22] @ ''script'' @ [CHR 0x22])"
  "files toy_resumed ''/home/u/.config/skytemple/debugger/game.nds.save.1.ds'' = Some ''m0''"
  "trace toy_resumed = trace toy_saved"
  by (simp_all add: toy_resumed_def set_emu_def toy_saved_eq toy_controller_fields toy_paths)

lemma toy_saved_fields:
  "emu_thread toy_saved
     = Some (toy_thread\<lparr>priv_emu := \<lparr>clock = 0, powered = False, machine = ''m0''\<rparr>\<rparr>)"
  "breakpoint_state toy_saved = None"
  "rom_filename toy_saved = Some ''/roms/game.nds''"
  "config_dir toy_saved = ''/home/u/.config/skytemple/debugger''"
  "ground_engine_state toy_saved = Some ''script''"
  "files toy_saved ''/home/u/.config/skytemple/debugger/game.nds.save.1.ge.json''
     = Some ([CHR 0x22] @ ''script'' @ [CHR 0x22])"
  "files toy_saved ''/home/u/.config/skytemple/debugger/game.nds.save.1.ds'' = Some ''m0''"
  by (simp_all add: toy_saved_eq toy_controller_fields toy_paths)

theorem loadstate_sequence_witness:
  "trace (snd (loadstate toy_desmume toy_ground_engine 1 toy_resumed)) =
     trace toy_resumed
     @ [EmuIsRunning, GesReset, EmuOpen (Some ''/roms/game.nds''), EmuIsRunning,
        EmuLoadFile ''/home/u/.config/skytemple/debugger/game.nds.save.1.ds'',
        FileOpenRead ''/home/u/.config/skytemple/debugger/game.nds.save.1.ge.json'',
        GesDeserialize, EmuIsRunning, TogglePausedDebuggingFeatures True, VariableSync,
        GroundStateSync, SetButtons Running]
   \<and> emu_thread (snd (loadstate toy_desmume toy_ground_engine 1 toy_resumed))
       = Some (toy_thread\<lparr>priv_emu := \<lparr>clock = 40, powered = False, machine = ''m0''\<rparr>\<rparr>)
   \<and> ground_engine_state (snd (loadstate toy_desmume toy_ground_engine 1 toy_resumed))
       = Some ''script''
   \<and> trace (snd (loadstate toy_desmume toy_ground_engine 1 toy_saved)) =
     trace toy_saved
     @ [EmuIsRunning, GesReset, EmuOpen (Some ''/roms/game.nds''), EmuIsRunning,
        EmuLoadFile ''/home/u/.config/skytemple/debugger/game.nds.save.1.ds'',
        FileOpenRead ''/home/u/.config/skytemple/debugger/game.nds.save.1.ge.json'',
        GesDeserialize, EmuIsRunning, TogglePausedDebuggingFeatures True, VariableSync,
        GroundStateSync, SetButtons Paused]"
proof -
  let ?ge = "''/home/u/.config/skytemple/debugger/game.nds.save.1.ge.json''"
  let ?ds = "''/home/u/.config/skytemple/debugger/game.nds.save.1.ds''"
  note a = loadstate_sequence
    [where s = toy_resumed and fn = "''/roms/game.nds''" and i = 1 and ds = ?ds and ge = ?ge
       and t = "toy_thread\<lparr>priv_emu := \<lparr>clock = 40, powered = True, machine = ''m0..''\<rparr>\<rparr>"
       and content = "[CHR 0x22] @ ''script'' @ [CHR 0x22]"
       and g = "''script''" and doc = "''script''" and g' = "''script''"
       and D = toy_desmume and G = toy_ground_engine
       and ?e1.0 = "\<lparr>clock = 40, powered = False, machine = []\<rparr>"
       and ?e2.0 = "\<lparr>clock = 40, powered = False, machine = ''m0''\<rparr>"]
  note b = loadstate_sequence
    [where s = toy_saved and fn = "''/roms/game.nds''" and i = 1 and ds = ?ds and ge = ?ge
       and t = "toy_thread\<lparr>priv_emu := \<lparr>clock = 0, powered = False, machine = ''m0''\<rparr>\<rparr>"
       and content = "[CHR 0x22] @ ''script'' @ [CHR 0x22]"
       and g = "''script''" and doc = "''script''" and g' = "''script''"
       and D = toy_desmume and G = toy_ground_engine
       and ?e1.0 = "\<lparr>clock = 0, powered = False, machine = []\<rparr>"
       and ?e2.0 = "\<lparr>clock = 0, powered = False, machine = ''m0''\<rparr>"]
  have a': "trace (snd (loadstate toy_desmume toy_ground_engine 1 toy_resumed)) =
     trace toy_resumed
     @ [EmuIsRunning, GesReset, EmuOpen (Some ''/roms/game.nds''), EmuIsRunning,
        EmuLoadFile ?ds, FileOpenRead ?ge,
        GesDeserialize, EmuIsRunning, TogglePausedDebuggingFeatures True, VariableSync,
        GroundStateSync, SetButtons Running]
   \<and> emu_thread (snd (loadstate toy_desmume toy_ground_engine 1 toy_resumed))
       = Some (toy_thread\<lparr>priv_emu := \<lparr>clock = 40, powered = False, machine = ''m0''\<rparr>\<rparr>)
   \<and> ground_engine_state (snd (loadstate toy_desmume toy_ground_engine 1 toy_resumed))
       = Some ''script''"
    using a by (simp add: toy_resumed_fields toy_paths toy_desmume_def toy_ground_engine_def)
  have b': "trace (snd (loadstate toy_desmume toy_ground_engine 1 toy_saved)) =
     trace toy_saved
     @ [EmuIsRunning, GesReset, EmuOpen (Some ''/roms/game.nds''), EmuIsRunning,
        EmuLoadFile ?ds, FileOpenRead ?ge,
        GesDeserialize, EmuIsRunning, TogglePausedDebuggingFeatures True, VariableSync,
        GroundStateSync, SetButtons Paused]"
    using b by (simp add: toy_saved_fields toy_paths toy_desmume_def toy_ground_engine_def)
  from a' b' show ?thesis by simp
qed

text \<open>
  Slot 1 was saved while the emulator was paused. The emulator is resumed and the slot
  is loaded: the load succeeds and sets the buttons to running.
\<close>

theorem loadstate_buttons_counterexample:
  "toy_saved =
     savestate toy_desmume toy_ground_engine 1
       (set_emu \<lparr>clock = 0, powered = False, machine = ''m0''\<rparr> toy_controller)
   \<and> \<not> is_running toy_desmume \<lparr>clock = 0, powered = False, machine = ''m0''\<rparr>
   \<and> toy_resumed = set_emu \<lparr>clock = 40, powered = True, machine = ''m0..''\<rparr> toy_saved
   \<and> fst (loadstate toy_desmume toy_ground_engine 1 toy_resumed) = None
   \<and> trace (snd (loadstate toy_desmume toy_ground_engine 1 toy_resumed)) =
     trace toy_resumed
     @ [EmuIsRunning, GesReset, EmuOpen (Some ''/roms/game.nds''), EmuIsRunning,
        EmuLoadFile ''/home/u/.config/skytemple/debugger/game.nds.save.1.ds'',
        FileOpenRead ''/home/u/.config/skytemple/debugger/game.nds.save.1.ge.json'',
        GesDeserialize, EmuIsRunning, TogglePausedDebuggingFeatures True, VariableSync,
        GroundStateSync, SetButtons Running]"
proof -
  have 1: "toy_saved =
     savestate toy_desmume toy_ground_engine 1
       (set_emu \<lparr>clock = 0, powered = False, machine = ''m0''\<rparr> toy_controller)"
    by (simp only: toy_saved_def)
  have 2: "\<not> is_running toy_desmume \<lparr>clock = 0, powered = False, machine = ''m0''\<rparr>"
    by (simp add: toy_desmume_def)
  have 3: "toy_resumed = set_emu \<lparr>clock = 40, powered = True, machine = ''m0..''\<rparr> toy_saved"
    by (simp only: toy_resumed_def)
  have 4: "loadstate toy_desmume toy_ground_engine 1 toy_resumed =
     (None,
      toy_resumed
        \<lparr>emu_thread :=
           Some (toy_thread\<lparr>priv_emu := \<lparr>clock = 40, powered = False, machine = ''m0''\<rparr>\<rparr>),
         priv_emu_is_running := False, priv_stopped := False,
         ground_engine_state := Some ''script'',
         trace := trace toy_resumed
           @ [EmuIsRunning, GesReset, EmuOpen (Some ''/roms/game.nds''), EmuIsRunning,
              EmuLoadFile ''/home/u/.config/skytemple/debugger/game.nds.save.1.ds'',
              FileOpenRead ''/home/u/.config/skytemple/debugger/game.nds.save.1.ge.json'',
              GesDeserialize, EmuIsRunning, TogglePausedDebuggingFeatures True, VariableSync,
              GroundStateSync, SetButtons Running]\<rparr>)"
    by (simp add: loadstate_def loadstate_try_def emu_reset_def threadsafe_emu_def coro_runner_def py_bool_def Let_def
        toy_resumed_fields toy_paths fail_hard_def log_def set_emu_def emu_is_running_set_def
        load_debugger_state_def toggle_paused_debugging_features_def
        toy_desmume_def toy_ground_engine_def)
  from 1 2 3 4 show ?thesis by simp
qed

end
